theory Spec2Isabelle
  imports Main "HOL-Library.Char_ord" "HOL-Library.List_Lexorder"
begin

section \<open>JavaScript values as the route handlers see them\<close>

text \<open>
  The handlers of the Express routers read request bodies, query strings and database
  rows as plain JavaScript values.  A value is \<open>undefined\<close>, \<open>null\<close>, a boolean, a
  number, a string, a \<open>Date\<close> (as the MySQL driver returns for DATE and TIMESTAMP
  columns), an array or an object with its properties in insertion order.  The payload
  type of numbers is a parameter: the settings router only passes numbers through the
  library functions \<open>toString\<close> and \<open>parseFloat\<close>; every other router is modelled at
  integer-valued numbers (\<open>int\<close>), so a fractional number in a request is outside the
  model.  A \<open>Date\<close> carries the two renderings the code can observe: the text of
  \<open>toISOString()\<close> and the text of \<open>toString()\<close>.
\<close>

datatype 'n jsval =
    Undefined
  | Null
  | JBool bool
  | JNum 'n
  | JStr string
  | JDate string string
  | JArr "'n jsval list"
  | JObj "(string \<times> 'n jsval) list"

type_synonym jv = "int jsval"
type_synonym obj = "(string \<times> jv) list"

text \<open>Exceptions thrown inside a handler's \<open>try\<close> block.\<close>

datatype exn = TypeError string | DbError string | LibError string

text \<open>An HTTP response: \<open>res.status(n).json(body)\<close>; \<open>res.json(body)\<close> is status 200.\<close>

record 'n reply =
  status :: nat
  body :: "'n jsval"

type_synonym response = "int reply"

definition respond :: "nat \<Rightarrow> 'n jsval \<Rightarrow> 'n reply" where
  "respond n b = \<lparr>status = n, body = b\<rparr>"

definition error_body :: "string \<Rightarrow> 'n jsval" where
  "error_body msg = JObj [(''error'', JStr msg)]"

definition error_message_body :: "string \<Rightarrow> string \<Rightarrow> 'n jsval" where
  "error_message_body err msg = JObj [(''error'', JStr err), (''message'', JStr msg)]"

text \<open>The user that \<open>authenticateToken\<close> leaves in \<open>req.user\<close>: the payload of the token.\<close>

record user =
  user_id :: int
  user_email :: string
  isAdmin :: bool

subsection \<open>Truthiness, property access, conversion to string\<close>

fun truthy :: "jv \<Rightarrow> bool" where
  "truthy Undefined = False"
| "truthy Null = False"
| "truthy (JBool b) = b"
| "truthy (JNum n) = (n \<noteq> 0)"
| "truthy (JStr s) = (s \<noteq> [])"
| "truthy (JDate i t) = True"
| "truthy (JArr xs) = True"
| "truthy (JObj kvs) = True"

definition js_or :: "jv \<Rightarrow> jv \<Rightarrow> jv" where
  "js_or a b = (if truthy a then a else b)"

text \<open>\<open>o.k\<close>: the value of property \<open>k\<close>, \<open>undefined\<close> when the object has none.\<close>

definition fld :: "(string \<times> 'n jsval) list \<Rightarrow> string \<Rightarrow> 'n jsval" where
  "fld ob k = (case map_of ob k of None \<Rightarrow> Undefined | Some v \<Rightarrow> v)"

text \<open>\<open>v.k\<close> on a value of a response.\<close>

definition get_prop :: "'n jsval \<Rightarrow> string \<Rightarrow> 'n jsval" where
  "get_prop v k = (case v of JObj ob \<Rightarrow> fld ob k | _ \<Rightarrow> Undefined)"

text \<open>\<open>{...o, k: v}\<close>: an existing property keeps its place and takes the new value.\<close>

fun obj_put :: "(string \<times> 'n jsval) list \<Rightarrow> string \<Rightarrow> 'n jsval \<Rightarrow> (string \<times> 'n jsval) list" where
  "obj_put [] k v = [(k, v)]"
| "obj_put ((k', v') # rest) k v =
     (if k' = k then (k, v) # rest else (k', v') # obj_put rest k v)"

text \<open>\<open>const { k, ...rest } = o\<close>: the rest object has every property but \<open>k\<close>.\<close>

definition obj_without :: "string \<Rightarrow> obj \<Rightarrow> obj" where
  "obj_without k ob = filter (\<lambda>kv. fst kv \<noteq> k) ob"

definition digit_char :: "nat \<Rightarrow> char" where
  "digit_char d = ''0123456789'' ! (d mod 10)"

fun nat_digits :: "nat \<Rightarrow> string" where
  "nat_digits n =
     (if n < 10 then [digit_char n] else nat_digits (n div 10) @ [digit_char (n mod 10)])"

definition int_to_string :: "int \<Rightarrow> string" where
  "int_to_string i = (if i < 0 then CHR ''-'' # nat_digits (nat (- i)) else nat_digits (nat i))"

fun join_with :: "string \<Rightarrow> string list \<Rightarrow> string" where
  "join_with sep [] = []"
| "join_with sep [x] = x"
| "join_with sep (x # y # ys) = x @ sep @ join_with sep (y # ys)"

text \<open>
  \<open>String(v)\<close>, also what a template literal and \<open>v + ' '\<close> do.  An array joins its
  elements with commas, \<open>null\<close> and \<open>undefined\<close> elements as the empty string.
\<close>

fun to_str :: "jv \<Rightarrow> string" where
  "to_str Undefined = ''undefined''"
| "to_str Null = ''null''"
| "to_str (JBool b) = (if b then ''true'' else ''false'')"
| "to_str (JNum n) = int_to_string n"
| "to_str (JStr s) = s"
| "to_str (JDate i t) = t"
| "to_str (JArr xs) =
     join_with '','' (map (\<lambda>x. if x = Undefined \<or> x = Null then [] else to_str x) xs)"
| "to_str (JObj kvs) = ''[object Object]''"

fun js_typeof :: "'n jsval \<Rightarrow> string" where
  "js_typeof Undefined = ''undefined''"
| "js_typeof (JBool b) = ''boolean''"
| "js_typeof (JNum n) = ''number''"
| "js_typeof (JStr s) = ''string''"
| "js_typeof v = ''object''"

definition is_ws :: "char \<Rightarrow> bool" where
  "is_ws c = (c \<in> set [CHR '' '', CHR 0x09, CHR 0x0A, CHR 0x0B, CHR 0x0C, CHR 0x0D])"

definition trim :: "string \<Rightarrow> string" where
  "trim s = rev (dropWhile is_ws (rev (dropWhile is_ws s)))"

subsection \<open>\<open>parseInt\<close>\<close>

definition digit_val :: "char \<Rightarrow> nat option" where
  "digit_val c =
     (let n = of_char c :: nat
      in if 48 \<le> n \<and> n \<le> 57 then Some (n - 48)
         else if 97 \<le> n \<and> n \<le> 102 then Some (n - 87)
         else if 65 \<le> n \<and> n \<le> 70 then Some (n - 55)
         else None)"

definition is_digit_in :: "nat \<Rightarrow> char \<Rightarrow> bool" where
  "is_digit_in radix c = (case digit_val c of None \<Rightarrow> False | Some d \<Rightarrow> d < radix)"

definition digits_value :: "nat \<Rightarrow> string \<Rightarrow> nat" where
  "digits_value radix ds = foldl (\<lambda>acc c. acc * radix + (case digit_val c of None \<Rightarrow> 0 | Some d \<Rightarrow> d)) 0 ds"

text \<open>
  \<open>parseInt(s)\<close> with no radix: leading white space is skipped, a sign is read, a prefix
  \<open>0x\<close> or \<open>0X\<close> selects base 16, and the longest run of digits is the value; anything
  after it is ignored.  With no digit the result is \<open>NaN\<close>, here \<open>None\<close>.
\<close>

definition parse_digits :: "nat \<Rightarrow> string \<Rightarrow> nat option" where
  "parse_digits radix s =
     (let ds = takeWhile (is_digit_in radix) s
      in if ds = [] then None else Some (digits_value radix ds))"

definition parse_unsigned :: "string \<Rightarrow> nat option" where
  "parse_unsigned s =
     (case s of
        c1 # c2 # rest \<Rightarrow>
          (if c1 = CHR ''0'' \<and> (c2 = CHR ''x'' \<or> c2 = CHR ''X'')
           then parse_digits 16 rest else parse_digits 10 s)
      | _ \<Rightarrow> parse_digits 10 s)"

definition parseInt_str :: "string \<Rightarrow> int option" where
  "parseInt_str s =
     (let t = dropWhile is_ws s
      in case t of
           [] \<Rightarrow> None
         | c # rest \<Rightarrow>
             (if c = CHR ''-'' then map_option (\<lambda>n. - int n) (parse_unsigned rest)
              else if c = CHR ''+'' then map_option int (parse_unsigned rest)
              else map_option int (parse_unsigned t)))"

text \<open>\<open>parseInt(v)\<close> converts its argument to a string first.\<close>

definition parseInt :: "jv \<Rightarrow> int option" where
  "parseInt v = parseInt_str (to_str v)"


section \<open>The database\<close>

text \<open>
  A table is the list of its rows, and a row is the object the MySQL driver hands to the
  code: one property per column.  The handlers are modelled against a database that
  answers every statement; where a handler's behaviour on a failing statement is the
  subject (the check-in status route), the failure is an explicit input.  The collation
  of text comparisons and the order of rows where no handler depends on it are the
  database's and are not modelled: a text column equals a text parameter when the two
  strings are equal.
\<close>

record db =
  travelers :: "obj list"
  vehicles :: "obj list"
  post_sections :: "obj list"
  posts :: "obj list"
  check_ins :: "obj list"
  vehicle_allotments :: "obj list"
  announcements :: "obj list"
  auto_increment :: "string \<Rightarrow> int"

text \<open>
  \<open>column = ?\<close> in a WHERE clause: never true on NULL.  A number column equals a text
  parameter that is the decimal numeral of the number (MySQL also reads other spellings
  of a number from a text, which are outside the model), and the parameters \<open>true\<close> and
  \<open>false\<close> are the numbers 1 and 0.
\<close>

fun sql_eq :: "jv \<Rightarrow> jv \<Rightarrow> bool" where
  "sql_eq (JNum x) (JNum y) = (x = y)"
| "sql_eq (JStr x) (JStr y) = (x = y)"
| "sql_eq (JNum x) (JStr s) = (s = int_to_string x)"
| "sql_eq (JNum x) (JBool b) = (x = (if b then 1 else 0))"
| "sql_eq a b = False"

definition null_if_undefined :: "jv \<Rightarrow> jv" where
  "null_if_undefined v = (if v = Undefined then Null else v)"

section \<open>Travelers router (routes/travelers.js)\<close>

text \<open>
  The template literal
  \<^verbatim>\<open>`${t.first_name} ${t.middle_name ? t.middle_name + ' ' : ''}${t.last_name}`.trim()\<close>.
\<close>

definition full_name :: "obj \<Rightarrow> string" where
  "full_name t =
     trim (to_str (fld t ''first_name'') @ '' '' @
           (if truthy (fld t ''middle_name'') then to_str (fld t ''middle_name'') @ '' '' else [])
           @ to_str (fld t ''last_name''))"

text \<open>\<open>d ? d.toISOString().split('T')[0] : null\<close>; a truthy value that is no Date throws.\<close>

definition iso_date_part :: "jv \<Rightarrow> exn + jv" where
  "iso_date_part d =
     (if truthy d
      then (case d of
              JDate isotext txt \<Rightarrow> Inr (JStr (takeWhile (\<lambda>c. c \<noteq> CHR ''T'') isotext))
            | _ \<Rightarrow> Inl (TypeError ''toISOString is not a function''))
      else Inr Null)"

definition formatTraveler :: "obj \<Rightarrow> exn + obj" where
  "formatTraveler t =
     (case iso_date_part (fld t ''birth_date'') of
        Inl e \<Rightarrow> Inl e
      | Inr birthDate \<Rightarrow>
     (case iso_date_part (fld t ''passport_issue_date'') of
        Inl e \<Rightarrow> Inl e
      | Inr passportIssueDate \<Rightarrow>
     (case iso_date_part (fld t ''passport_expiry_date'') of
        Inl e \<Rightarrow> Inl e
      | Inr passportExpiryDate \<Rightarrow>
        Inr [(''id'', fld t ''id''),
             (''tirthId'', fld t ''tirth_id''),
             (''firstName'', fld t ''first_name''),
             (''middleName'', js_or (fld t ''middle_name'') (JStr [])),
             (''lastName'', fld t ''last_name''),
             (''name'', JStr (full_name t)),
             (''email'', fld t ''email''),
             (''phone'', fld t ''phone''),
             (''city'', fld t ''city''),
             (''country'', fld t ''country''),
             (''center'', fld t ''center''),
             (''birthDate'', birthDate),
             (''age'', if truthy (fld t ''age'') then JStr (to_str (fld t ''age'')) else Null),
             (''passportNo'', fld t ''passport_no''),
             (''passportIssueDate'', passportIssueDate),
             (''passportExpiryDate'', passportExpiryDate),
             (''nationality'', fld t ''nationality''),
             (''gender'', fld t ''gender''),
             (''hoodiSize'', fld t ''hoodi_size''),
             (''vehicleId'', fld t ''vehicle_id''),
             (''profileLine'', fld t ''profile_line''),
             (''aboutMe'', fld t ''about_me''),
             (''image'', js_or (fld t ''image_url'') (JStr [])),
             (''vehicleName'', fld t ''vehicle_name''),
             (''vehicleColor'', fld t ''vehicle_color'')])))"

text \<open>\<open>travelers.map(t => ...)\<close>: the first row that throws ends the map.\<close>

fun formatTravelerData :: "obj list \<Rightarrow> exn + obj list" where
  "formatTravelerData [] = Inr []"
| "formatTravelerData (t # ts) =
     (case formatTraveler t of
        Inl e \<Rightarrow> Inl e
      | Inr x \<Rightarrow> (case formatTravelerData ts of Inl e \<Rightarrow> Inl e | Inr xs \<Rightarrow> Inr (x # xs)))"

text \<open>
  \<open>SELECT t.*, v.name as vehicle_name, v.color as vehicle_color FROM travelers t
  LEFT JOIN vehicles v ON t.vehicle_id = v.id\<close>: every traveler row, with the two
  columns of its vehicle, NULL when it has none.
\<close>

definition vehicle_of :: "db \<Rightarrow> jv \<Rightarrow> obj option" where
  "vehicle_of d vid = find (\<lambda>v. sql_eq (fld v ''id'') vid) (vehicles d)"

definition with_vehicle :: "db \<Rightarrow> obj \<Rightarrow> obj" where
  "with_vehicle d t =
     (case vehicle_of d (fld t ''vehicle_id'') of
        None \<Rightarrow> t @ [(''vehicle_name'', Null), (''vehicle_color'', Null)]
      | Some v \<Rightarrow> t @ [(''vehicle_name'', null_if_undefined (fld v ''name'')),
                       (''vehicle_color'', null_if_undefined (fld v ''color''))])"

definition select_travelers_joined :: "db \<Rightarrow> obj list" where
  "select_travelers_joined d = map (with_vehicle d) (travelers d)"

text \<open>GET /public and GET / (the latter behind \<open>requireAdmin\<close>) share their body.\<close>

definition get_travelers :: "db \<Rightarrow> response" where
  "get_travelers d =
     (case formatTravelerData (select_travelers_joined d) of
        Inl e \<Rightarrow> respond 500 (error_body ''Failed to fetch travelers'')
      | Inr formatted \<Rightarrow> respond 200 (JArr (map JObj formatted)))"

definition strip_password :: "obj \<Rightarrow> obj" where
  "strip_password traveler =
     obj_put (obj_put (obj_without ''password_hash'' traveler)
                ''name'' (JStr (full_name traveler)))
       ''image'' (js_or (fld traveler ''image_url'') (JStr []))"

text \<open>
  GET /:id.  \<open>parseInt\<close> of the route parameter may be \<open>NaN\<close>: no user id is equal to
  it, and the statement that binds it fails.
\<close>

definition get_traveler_by_id :: "user \<Rightarrow> string \<Rightarrow> db \<Rightarrow> response" where
  "get_traveler_by_id u id_param d =
     (let travelerId = parseInt_str id_param
      in if \<not> isAdmin u \<and> Some (user_id u) \<noteq> travelerId
         then respond 403 (error_message_body ''Access denied''
                             ''You can only access your own profile'')
         else (case travelerId of
                 None \<Rightarrow> respond 500 (error_body ''Failed to fetch traveler'')
               | Some i \<Rightarrow>
                   (case filter (\<lambda>t. sql_eq (fld t ''id'') (JNum i)) (travelers d) of
                      [] \<Rightarrow> respond 404 (error_body ''Traveler not found'')
                    | traveler # _ \<Rightarrow> respond 200 (JObj (strip_password traveler)))))"

text \<open>GET /email/:email.\<close>

definition get_traveler_by_email :: "user \<Rightarrow> string \<Rightarrow> db \<Rightarrow> response" where
  "get_traveler_by_email u email d =
     (if \<not> isAdmin u \<and> user_email u \<noteq> email
      then respond 403 (error_message_body ''Access denied''
                          ''You can only access your own information'')
      else (case filter (\<lambda>t. sql_eq (fld t ''email'') (JStr email)) (select_travelers_joined d) of
              [] \<Rightarrow> respond 404 (error_body ''Traveler not found'')
            | traveler # _ \<Rightarrow>
                respond 200 (JObj
                  [(''id'', fld traveler ''id''),
                   (''email'', fld traveler ''email''),
                   (''firstName'', fld traveler ''first_name''),
                   (''lastName'', fld traveler ''last_name''),
                   (''middleName'', js_or (fld traveler ''middle_name'') (JStr [])),
                   (''name'', JStr (full_name traveler)),
                   (''image'', js_or (fld traveler ''image_url'') (JStr [])),
                   (''vehicleId'', fld traveler ''vehicle_id''),
                   (''vehicle_id'', fld traveler ''vehicle_id''),
                   (''vehicleName'', js_or (fld traveler ''vehicle_name'') Null),
                   (''vehicleColor'', js_or (fld traveler ''vehicle_color'') Null)])))"

text \<open>
  POST /login.  \<open>bcrypt.compare\<close> and \<open>jwt.sign\<close> are library functions and inputs of
  the model: \<open>compare password hash\<close> answers whether the password matches or throws,
  \<open>sign payload secret expiresIn\<close> is the signed token.  \<open>secret\<close> is
  \<open>process.env.JWT_SECRET\<close>, \<open>None\<close> when the variable is not set.
\<close>

definition select_traveler_by_email :: "db \<Rightarrow> jv \<Rightarrow> obj list" where
  "select_traveler_by_email d email = filter (\<lambda>t. sql_eq (fld t ''email'') email) (travelers d)"

definition login_payload :: "obj \<Rightarrow> obj" where
  "login_payload traveler =
     [(''id'', fld traveler ''id''), (''email'', fld traveler ''email''),
      (''isAdmin'', JBool False)]"

definition login ::
  "(jv \<Rightarrow> jv \<Rightarrow> exn + bool) \<Rightarrow> (obj \<Rightarrow> string \<Rightarrow> string \<Rightarrow> string) \<Rightarrow> string option
     \<Rightarrow> obj \<Rightarrow> db \<Rightarrow> response" where
  "login compare sign secret req_body d =
     (let email = fld req_body ''email''; password = fld req_body ''password''
      in if \<not> truthy email \<or> \<not> truthy password
         then respond 400 (error_body ''Email and password required'')
         else (case select_traveler_by_email d email of
                 [] \<Rightarrow> respond 401 (error_body ''Invalid email or password'')
               | traveler # _ \<Rightarrow>
                   (case compare password (fld traveler ''password_hash'') of
                      Inl e \<Rightarrow> respond 500 (error_body ''Login failed'')
                    | Inr isValid \<Rightarrow>
                        if \<not> isValid
                        then respond 401 (error_body ''Invalid email or password'')
                        else (case secret of
                                None \<Rightarrow> respond 500 (error_body ''Server configuration error'')
                              | Some key \<Rightarrow>
                                  if key = []
                                  then respond 500 (error_body ''Server configuration error'')
                                  else respond 200 (JObj
                                    [(''token'', JStr (sign (login_payload traveler) key ''7d'')),
                                     (''traveler'', JObj (strip_password traveler)),
                                     (''expiresIn'', JStr ''7d'')])))))"



section \<open>Posts router (routes/posts.js)\<close>

text \<open>
  The model of the posts router covers the \<open>posts\<close> and \<open>post_sections\<close> tables.  The
  \<open>post_media\<close> and \<open>post_tags\<close> tables, the \<open>media\<close> and \<open>tags\<close> fields built
  from them, the \<open>lat\<close> and \<open>lng\<close> fields (floating-point values) and the schema
  maintenance statements at the head of some handlers are left out: none of them takes part
  in selecting posts or in computing the \<open>approved\<close> column.  An UPDATE stores the values
  it is given; column constraints of an UPDATE are not modelled.
\<close>

subsection \<open>Reading posts\<close>

definition iso_key :: "obj \<Rightarrow> string" where
  "iso_key p = (case fld p ''created_at'' of JDate isotext txt \<Rightarrow> isotext | _ \<Rightarrow> [])"

text \<open>\<open>ORDER BY p.created_at DESC\<close>.\<close>

definition order_created_desc :: "obj list \<Rightarrow> obj list" where
  "order_created_desc ps = rev (sort_key iso_key ps)"

text \<open>
  The WHERE clause that GET / builds from \<open>req.user\<close> and the query string: a requester
  who is no admin always gets \<open>p.approved = true\<close>; an admin gets an approval condition
  only when the \<open>approved\<close> parameter is present.
\<close>

definition posts_where :: "user \<Rightarrow> obj \<Rightarrow> obj \<Rightarrow> bool" where
  "posts_where u q p =
     ((if \<not> isAdmin u then sql_eq (fld p ''approved'') (JBool True)
       else if fld q ''approved'' \<noteq> Undefined
            then sql_eq (fld p ''approved'') (JBool (fld q ''approved'' = JStr ''true''))
            else True)
      \<and> (if truthy (fld q ''section'') then sql_eq (fld p ''section_id'') (fld q ''section'')
         else True)
      \<and> (if truthy (fld q ''author'') then sql_eq (fld p ''author_email'') (fld q ''author'')
         else True))"

text \<open>
  \<open>LIMIT ?\<close> and \<open>OFFSET ?\<close> with \<open>parseInt\<close> of the parameters: MySQL rejects a
  \<open>NaN\<close> or negative count.
\<close>

definition limit_rows :: "obj \<Rightarrow> obj list \<Rightarrow> exn + obj list" where
  "limit_rows q rows =
     (if truthy (fld q ''limit'')
      then (case parseInt (fld q ''limit'') of
              None \<Rightarrow> Inl (DbError ''LIMIT'')
            | Some n \<Rightarrow>
                if n < 0 then Inl (DbError ''LIMIT'')
                else if truthy (fld q ''offset'')
                then (case parseInt (fld q ''offset'') of
                        None \<Rightarrow> Inl (DbError ''OFFSET'')
                      | Some k \<Rightarrow>
                          if k < 0 then Inl (DbError ''OFFSET'')
                          else Inr (take (nat n) (drop (nat k) rows)))
                else Inr (take (nat n) rows))
      else Inr rows)"

definition select_posts :: "user \<Rightarrow> obj \<Rightarrow> db \<Rightarrow> exn + obj list" where
  "select_posts u q d = limit_rows q (order_created_desc (filter (posts_where u q) (posts d)))"

text \<open>\<open>post.created_at.toISOString()\<close> throws when the column holds no Date.\<close>

definition toISOString :: "jv \<Rightarrow> exn + jv" where
  "toISOString v =
     (case v of JDate isotext txt \<Rightarrow> Inr (JStr isotext)
      | _ \<Rightarrow> Inl (TypeError ''toISOString is not a function''))"

definition format_post_list_item :: "obj \<Rightarrow> exn + obj" where
  "format_post_list_item post =
     (case toISOString (fld post ''created_at'') of
        Inl e \<Rightarrow> Inl e
      | Inr ts \<Rightarrow>
          Inr [(''id'', fld post ''id''),
               (''author'', js_or (fld post ''author_name'') (fld post ''author_email'')),
               (''email'', fld post ''author_email''),
               (''authorImage'', js_or (fld post ''author_image_url'') (JStr [])),
               (''place'', fld post ''place''),
               (''location'', fld post ''location''),
               (''section'', fld post ''section_id''),
               (''description'', fld post ''description''),
               (''timestamp'', ts),
               (''approved'', JBool (fld post ''approved'' = JNum 1)),
               (''isPrivate'', JBool (fld post ''is_private'' = JNum 1
                                    \<or> fld post ''is_private'' = JBool True))])"

fun format_posts :: "obj list \<Rightarrow> exn + obj list" where
  "format_posts [] = Inr []"
| "format_posts (p # ps) =
     (case format_post_list_item p of
        Inl e \<Rightarrow> Inl e
      | Inr x \<Rightarrow> (case format_posts ps of Inl e \<Rightarrow> Inl e | Inr xs \<Rightarrow> Inr (x # xs)))"

text \<open>GET /.\<close>

definition get_posts :: "user \<Rightarrow> obj \<Rightarrow> db \<Rightarrow> response" where
  "get_posts u q d =
     (case select_posts u q d of
        Inl e \<Rightarrow> respond 500 (error_body ''Failed to fetch posts'')
      | Inr rows \<Rightarrow>
          (case format_posts rows of
             Inl e \<Rightarrow> respond 500 (error_body ''Failed to fetch posts'')
           | Inr formatted \<Rightarrow> respond 200 (JArr (map JObj formatted))))"

definition select_post_by_id :: "db \<Rightarrow> jv \<Rightarrow> obj list" where
  "select_post_by_id d pid = filter (\<lambda>p. sql_eq (fld p ''id'') pid) (posts d)"

text \<open>GET /:id; the single-post response has no \<open>isPrivate\<close> field.\<close>

definition get_post :: "user \<Rightarrow> string \<Rightarrow> db \<Rightarrow> response" where
  "get_post u id_param d =
     (case select_post_by_id d (JStr id_param) of
        [] \<Rightarrow> respond 404 (error_body ''Post not found'')
      | post # _ \<Rightarrow>
          if \<not> isAdmin u \<and> \<not> truthy (fld post ''approved'')
          then respond 403 (error_body ''Post not available'')
          else (case format_post_list_item post of
                  Inl e \<Rightarrow> respond 500 (error_body ''Failed to fetch post'')
                | Inr formatted \<Rightarrow> respond 200 (JObj (obj_without ''isPrivate'' formatted))))"

subsection \<open>Creating a post\<close>

definition lower_char :: "char \<Rightarrow> char" where
  "lower_char c =
     (let n = of_char c :: nat in if 65 \<le> n \<and> n \<le> 90 then char_of (n + 32) else c)"

definition toLowerCase :: "string \<Rightarrow> string" where
  "toLowerCase s = map lower_char s"

definition sectionMap :: "(string \<times> int) list" where
  "sectionMap =
     [(''temples'', 1), (''temple'', 1), (''experiences'', 2), (''experience'', 2),
      (''food'', 3), (''travel'', 4), (''accommodation'', 5), (''culture'', 6),
      (''nature'', 7), (''scenic'', 8), (''events'', 9), (''event'', 9), (''heritage'', 10)]"

text \<open>
  \<open>getSectionId\<close>: a positive number is taken as the id; otherwise the name is looked up
  in \<open>post_sections\<close>, exactly or without regard to case, and at last in the fixed table
  of names.  (Names that JavaScript objects inherit, such as \<open>constructor\<close>, are outside
  the model of the table lookup.)
\<close>

definition section_name_matches :: "jv \<Rightarrow> obj \<Rightarrow> bool" where
  "section_name_matches s r =
     (case (fld r ''name'', s) of
        (JStr n, JStr x) \<Rightarrow> n = x \<or> toLowerCase n = toLowerCase x
      | _ \<Rightarrow> False)"

definition section_fallback :: "jv \<Rightarrow> jv" where
  "section_fallback s =
     (case map_of sectionMap (trim (toLowerCase (to_str s))) of
        None \<Rightarrow> Null | Some i \<Rightarrow> JNum i)"

definition section_lookup :: "db \<Rightarrow> jv \<Rightarrow> jv" where
  "section_lookup d s =
     (case filter (section_name_matches s) (post_sections d) of
        [] \<Rightarrow> section_fallback s
      | sectionRow # _ \<Rightarrow>
          if truthy (fld sectionRow ''id'') then fld sectionRow ''id'' else section_fallback s)"

definition getSectionId :: "db \<Rightarrow> jv \<Rightarrow> jv" where
  "getSectionId d s =
     (if \<not> truthy s then Null
      else (case parseInt s of
              Some numId \<Rightarrow> if numId > 0 then JNum numId else section_lookup d s
            | None \<Rightarrow> section_lookup d s))"

definition toNull :: "jv \<Rightarrow> jv" where
  "toNull v = (if v = Undefined \<or> v = JStr [] then Null else v)"

definition toEmpty :: "jv \<Rightarrow> jv" where
  "toEmpty v = (if v = Undefined \<or> v = Null then JStr [] else JStr (to_str v))"

text \<open>\<open>x !== undefined ? (x === true || x === 'true') : false\<close>.\<close>

definition flag_of :: "jv \<Rightarrow> bool" where
  "flag_of x = (if x \<noteq> Undefined then (x = JBool True \<or> x = JStr ''true'') else False)"

definition sql_bool :: "bool \<Rightarrow> jv" where
  "sql_bool b = JNum (if b then 1 else 0)"

text \<open>
  The INSERT of a post: the row takes the next AUTO_INCREMENT id; the foreign key from
  \<open>section_id\<close> to \<open>post_sections\<close> rejects an id that no section has.
\<close>

definition section_exists :: "db \<Rightarrow> jv \<Rightarrow> bool" where
  "section_exists d sid = (sid = Null \<or> (\<exists>r \<in> set (post_sections d). sql_eq (fld r ''id'') sid))"

definition insert_post :: "db \<Rightarrow> obj \<Rightarrow> exn + (int \<times> db)" where
  "insert_post d cols =
     (if \<not> section_exists d (fld cols ''section_id'')
      then Inl (DbError ''ER_NO_REFERENCED_ROW_2'')
      else (let i = auto_increment d ''posts''
            in Inr (i, d\<lparr>posts := posts d @ [(''id'', JNum i) # cols],
                         auto_increment := (auto_increment d)(''posts'' := i + 1)\<rparr>)))"

text \<open>
  POST /.  The result is the response and the database after the request.  \<open>now\<close> is the
  value the database gives \<open>created_at\<close>.
\<close>

definition create_post :: "jv \<Rightarrow> user \<Rightarrow> obj \<Rightarrow> db \<Rightarrow> response \<times> db" where
  "create_post now u req_body d =
     (let authorEmail = fld req_body ''authorEmail'';
          email = fld req_body ''email'';
          postAuthorEmail = js_or (js_or authorEmail email) (JStr (user_email u))
      in if \<not> isAdmin u \<and> postAuthorEmail \<noteq> JStr (user_email u)
         then (respond 403 (error_message_body ''Access denied''
                              ''You can only create posts for yourself''), d)
         else
          (let finalAuthorEmail = js_or (js_or authorEmail email) (JStr []);
               finalAuthorName =
                 js_or (js_or (fld req_body ''authorName'') (fld req_body ''author'')) (JStr []);
               finalSection = getSectionId d (fld req_body ''section'');
               finalApproved = flag_of (fld req_body ''approved'');
               finalIsPrivate = flag_of (fld req_body ''isPrivate'')
           in if finalSection \<noteq> Null
                 \<and> (case parseInt finalSection of None \<Rightarrow> True | Some parsedId \<Rightarrow> \<not> parsedId > 0)
              then (respond 400 (error_body
                      (''Invalid section: '' @ [CHR 0x22] @ to_str (fld req_body ''section'')
                       @ [CHR 0x22] @ ''. Section must be a valid ID or name. Received: ''
                       @ to_str finalSection @ '' ('' @ js_typeof finalSection @ '')'')), d)
              else
               (case insert_post d
                       [(''author_email'', finalAuthorEmail),
                        (''author_name'', finalAuthorName),
                        (''author_image_url'', toEmpty (fld req_body ''authorImage'')),
                        (''place'', toEmpty (fld req_body ''place'')),
                        (''location'', toEmpty (fld req_body ''location'')),
                        (''section_id'',
                           (case parseInt finalSection of None \<Rightarrow> Null | Some i \<Rightarrow> JNum i)),
                        (''description'', toEmpty (fld req_body ''description'')),
                        (''lat'', toNull (fld req_body ''lat'')),
                        (''lng'', toNull (fld req_body ''lng'')),
                        (''approved'', sql_bool finalApproved),
                        (''is_private'', sql_bool finalIsPrivate),
                        (''created_at'', now)] of
                  Inl e \<Rightarrow> (respond 500 (error_body ''Failed to create post''), d)
                | Inr (postId, d') \<Rightarrow>
                    (respond 201 (JObj [(''id'', JNum postId),
                                        (''message'', JStr ''Post created successfully''),
                                        (''approved'', JBool finalApproved),
                                        (''isPrivate'', JBool finalIsPrivate)]), d'))))"

subsection \<open>Updating and approving a post\<close>

text \<open>How a bound parameter is stored in a column: booleans as 1 and 0.\<close>

definition sql_value :: "jv \<Rightarrow> jv" where
  "sql_value v = (case v of JBool b \<Rightarrow> sql_bool b | Undefined \<Rightarrow> Null | _ \<Rightarrow> v)"

text \<open>\<open>UPDATE posts SET ... WHERE id = ?\<close> with the collected column assignments.\<close>

definition set_columns :: "(string \<times> jv) list \<Rightarrow> obj \<Rightarrow> obj" where
  "set_columns updates row = foldl (\<lambda>r kv. obj_put r (fst kv) (sql_value (snd kv))) row updates"

definition update_post_row :: "db \<Rightarrow> int \<Rightarrow> (string \<times> jv) list \<Rightarrow> db" where
  "update_post_row d postId updates =
     d\<lparr>posts := map (\<lambda>p. if sql_eq (fld p ''id'') (JNum postId) then set_columns updates p else p)
                     (posts d)\<rparr>"

definition post_updates :: "user \<Rightarrow> obj \<Rightarrow> (string \<times> jv) list" where
  "post_updates u req_body =
     (if truthy (fld req_body ''place'') then [(''place'', fld req_body ''place'')] else [])
     @ (if truthy (fld req_body ''location'') then [(''location'', fld req_body ''location'')] else [])
     @ (if fld req_body ''section'' \<noteq> Undefined then [(''section_id'', fld req_body ''section'')] else [])
     @ (if fld req_body ''description'' \<noteq> Undefined
        then [(''description'', fld req_body ''description'')] else [])
     @ (if fld req_body ''lat'' \<noteq> Undefined then [(''lat'', fld req_body ''lat'')] else [])
     @ (if fld req_body ''lng'' \<noteq> Undefined then [(''lng'', fld req_body ''lng'')] else [])
     @ (if fld req_body ''approved'' \<noteq> Undefined \<and> isAdmin u
        then [(''approved'', fld req_body ''approved'')] else [])"

text \<open>PUT /:id.\<close>

definition update_post :: "user \<Rightarrow> string \<Rightarrow> obj \<Rightarrow> db \<Rightarrow> response \<times> db" where
  "update_post u id_param req_body d =
     (case parseInt_str id_param of
        None \<Rightarrow> (respond 400 (error_body ''Invalid post ID''), d)
      | Some postId \<Rightarrow>
          if postId \<le> 0 then (respond 400 (error_body ''Invalid post ID''), d)
          else (case select_post_by_id d (JNum postId) of
                  [] \<Rightarrow> (respond 404 (error_body ''Post not found''), d)
                | post # _ \<Rightarrow>
                    if \<not> isAdmin u \<and> fld post ''author_email'' \<noteq> JStr (user_email u)
                    then (respond 403 (error_message_body ''Access denied''
                                         ''You can only update your own posts''), d)
                    else (respond 200 (JObj [(''message'', JStr ''Post updated successfully'')]),
                          update_post_row d postId (post_updates u req_body))))"

text \<open>PATCH /:id/approve, registered behind \<open>authenticateToken\<close> and \<open>requireAdmin\<close>.\<close>

definition approve_post :: "string \<Rightarrow> obj \<Rightarrow> db \<Rightarrow> response \<times> db" where
  "approve_post id_param req_body d =
     (case parseInt_str id_param of
        None \<Rightarrow> (respond 400 (error_body ''Invalid post ID''), d)
      | Some postId \<Rightarrow>
          if postId \<le> 0 then (respond 400 (error_body ''Invalid post ID''), d)
          else
           (let approved = fld req_body ''approved'';
                approvedValue = (approved = JBool True \<or> approved = JStr ''true'' \<or> approved = JNum 1);
                d' = update_post_row d postId [(''approved'', JBool approvedValue)]
            in case select_post_by_id d' (JNum postId) of
                 [] \<Rightarrow> (respond 404 (error_body ''Post not found after update''), d')
               | updatedPost # _ \<Rightarrow>
                   (respond 200 (JObj
                      [(''message'', JStr (''Post '' @ (if approvedValue then ''approved''
                                                        else ''disapproved'') @ '' successfully'')),
                       (''post'', JObj
                          [(''id'', fld updatedPost ''id''),
                           (''approved'', JBool (fld updatedPost ''approved'' = JNum 1
                                               \<or> fld updatedPost ''approved'' = JBool True)),
                           (''isPrivate'', JBool (fld updatedPost ''is_private'' = JNum 1
                                                \<or> fld updatedPost ''is_private'' = JBool True)),
                           (''author_email'', fld updatedPost ''author_email''),
                           (''place'', fld updatedPost ''place'')])]), d')))"

section \<open>Check-ins router (routes/checkIns.js)\<close>

text \<open>
  \<open>new Date(value)\<close> is a library call and an input of the model: \<open>parse_date v\<close> is
  the date part (\<open>YYYY-MM-DD\<close>) of \<open>new Date(v).toISOString()\<close>, \<open>None\<close> when the date is
  invalid; \<open>today\<close> is the same for \<open>new Date()\<close>.  The check-ins router normalizes a
  missing date to today.
\<close>

definition normalizeDate_checkins :: "(jv \<Rightarrow> string option) \<Rightarrow> string \<Rightarrow> jv \<Rightarrow> string option" where
  "normalizeDate_checkins parse_date today v = (if truthy v then parse_date v else Some today)"

text \<open>A normalized date as a condition: \<open>null\<close> and the empty string are falsy.\<close>

definition truthy_date :: "string option \<Rightarrow> string option" where
  "truthy_date dt = (case dt of None \<Rightarrow> None | Some s \<Rightarrow> if s = [] then None else Some s)"

text \<open>
  For GET /my-status every statement may fail: \<open>ok i\<close> says whether the statement at
  site \<open>i\<close> of the handler (0 to 5, in program order) succeeds.
\<close>

definition run_query :: "(nat \<Rightarrow> bool) \<Rightarrow> nat \<Rightarrow> 'a \<Rightarrow> exn + 'a" where
  "run_query ok site rows = (if ok site then Inr rows else Inl (DbError ''statement failed''))"

definition safe_status :: jv where
  "safe_status =
     JObj [(''vehicleId'', Null), (''active'', JBool False), (''checkedIn'', JArr []),
           (''isCheckedIn'', JBool False)]"

definition select_day_allotment :: "db \<Rightarrow> jv \<Rightarrow> string \<Rightarrow> obj list" where
  "select_day_allotment d travelerId targetDate =
     filter (\<lambda>a. sql_eq (fld a ''traveler_id'') travelerId \<and> sql_eq (fld a ''date'') (JStr targetDate))
       (vehicle_allotments d)"

text \<open>The day-wise vehicle, \<open>null\<close> when there is none.\<close>

definition day_vehicle :: "(nat \<Rightarrow> bool) \<Rightarrow> string option \<Rightarrow> obj list \<Rightarrow> db \<Rightarrow> exn + jv" where
  "day_vehicle ok targetDate trows d =
     (case trows of
        [] \<Rightarrow> Inr Null
      | traveler # _ \<Rightarrow>
          (case truthy_date targetDate of
             None \<Rightarrow> Inr Null
           | Some dt \<Rightarrow>
               if truthy (fld traveler ''id'')
               then (case run_query ok 1 (select_day_allotment d (fld traveler ''id'') dt) of
                       Inl e \<Rightarrow> Inl e
                     | Inr [] \<Rightarrow> Inr Null
                     | Inr (dayAllotment # _) \<Rightarrow>
                         if truthy (fld dayAllotment ''vehicle_id'')
                         then Inr (fld dayAllotment ''vehicle_id'') else Inr Null)
               else Inr Null))"

definition base_vehicle :: "obj list \<Rightarrow> jv" where
  "base_vehicle trows = (case trows of [] \<Rightarrow> Null | traveler # _ \<Rightarrow> fld traveler ''vehicle_id'')"

definition select_active_check_in :: "db \<Rightarrow> jv \<Rightarrow> jv \<Rightarrow> obj list" where
  "select_active_check_in d vehicleId travelerEmail =
     filter (\<lambda>c. sql_eq (fld c ''vehicle_id'') vehicleId
                \<and> sql_eq (fld c ''traveler_email'') travelerEmail
                \<and> sql_eq (fld c ''active'') (JNum 1)) (check_ins d)"

text \<open>
  The second half of the \<open>try\<close> block of GET /my-status, once the vehicle is known: the
  caller's active check-in, then three more statements whose results only feed the log.
\<close>

definition check_in_report :: "(nat \<Rightarrow> bool) \<Rightarrow> jv \<Rightarrow> jv \<Rightarrow> db \<Rightarrow> exn + response" where
  "check_in_report ok userEmail vehicleId d =
     (case run_query ok 2 (select_active_check_in d vehicleId userEmail) of
        Inl e \<Rightarrow> Inl e
      | Inr checkIn \<Rightarrow>
     (case run_query ok 3
             (filter (\<lambda>c. sql_eq (fld c ''vehicle_id'') vehicleId
                        \<and> sql_eq (fld c ''traveler_email'') userEmail) (check_ins d)) of
        Inl e \<Rightarrow> Inl e
      | Inr anyCheckIn \<Rightarrow>
     (case run_query ok 4 (filter (\<lambda>c. sql_eq (fld c ''vehicle_id'') vehicleId) (check_ins d)) of
        Inl e \<Rightarrow> Inl e
      | Inr allCheckIns \<Rightarrow>
     (case run_query ok 5
             (length (filter (\<lambda>c. sql_eq (fld c ''vehicle_id'') vehicleId
                                \<and> sql_eq (fld c ''active'') (JNum 1)) (check_ins d))) of
        Inl e \<Rightarrow> Inl e
      | Inr activeCheckIns \<Rightarrow>
          Inr (respond 200 (JObj
            [(''vehicleId'', vehicleId),
             (''active'', JBool True),
             (''checkedIn'', if checkIn \<noteq> [] then JArr [userEmail] else JArr []),
             (''isCheckedIn'', JBool (checkIn \<noteq> []))]))))))"

text \<open>
  The vehicle of the status: the day-wise allotment when there is one, else the base
  vehicle of the traveler row.
\<close>

definition choose_vehicle :: "jv \<Rightarrow> obj list \<Rightarrow> jv" where
  "choose_vehicle dayVehicle trows =
     (if \<not> truthy dayVehicle \<and> truthy (base_vehicle trows) then base_vehicle trows
      else dayVehicle)"

text \<open>The \<open>try\<close> block of GET /my-status.\<close>

definition my_status_try ::
  "(nat \<Rightarrow> bool) \<Rightarrow> (jv \<Rightarrow> string option) \<Rightarrow> string \<Rightarrow> user \<Rightarrow> obj \<Rightarrow> db \<Rightarrow> exn + response" where
  "my_status_try ok parse_date today u q d =
     (case run_query ok 0 (filter (\<lambda>t. sql_eq (fld t ''email'') (JStr (user_email u)))
                             (travelers d)) of
        Inl e \<Rightarrow> Inl e
      | Inr trows \<Rightarrow>
          (case day_vehicle ok (normalizeDate_checkins parse_date today (fld q ''date'')) trows d of
             Inl e \<Rightarrow> Inl e
           | Inr dayVehicle \<Rightarrow>
               if \<not> truthy (choose_vehicle dayVehicle trows)
               then Inr (respond 200 safe_status)
               else check_in_report ok (JStr (user_email u)) (choose_vehicle dayVehicle trows) d))"

text \<open>GET /my-status: the \<open>catch\<close> block answers with the safe default, status 200.\<close>

definition my_status ::
  "(nat \<Rightarrow> bool) \<Rightarrow> (jv \<Rightarrow> string option) \<Rightarrow> string \<Rightarrow> user \<Rightarrow> obj \<Rightarrow> db \<Rightarrow> response" where
  "my_status ok parse_date today u q d =
     (case my_status_try ok parse_date today u q d of
        Inl e \<Rightarrow> respond 200 safe_status
      | Inr r \<Rightarrow> r)"

subsection \<open>Checking in and out\<close>








text \<open>\<open>UPDATE check_ins SET active = 0, checked_out_at = NOW() WHERE ...\<close>.\<close>

definition check_out_row :: "jv \<Rightarrow> obj \<Rightarrow> obj" where
  "check_out_row now c = obj_put (obj_put c ''active'' (JNum 0)) ''checked_out_at'' now"


text \<open>DELETE /vehicle/:vehicleId, behind \<open>requireAdmin\<close>.\<close>

definition clear_vehicle_check_ins :: "jv \<Rightarrow> string \<Rightarrow> db \<Rightarrow> response \<times> db" where
  "clear_vehicle_check_ins now vehicle_param d =
     (respond 200 (JObj [(''message'', JStr ''All check-ins cleared for vehicle'')]),
      d\<lparr>check_ins := map (\<lambda>c. if sql_eq (fld c ''vehicle_id'') (JStr vehicle_param)
                                  \<and> sql_eq (fld c ''active'') (JNum 1)
                                then check_out_row now c else c) (check_ins d)\<rparr>)"

section \<open>Vehicle allotments (routes/vehicles.js)\<close>






section \<open>Settings router (routes/settings.js)\<close>















section \<open>Announcements router (routes/announcements.js)\<close>

text \<open>
  The pattern \<^verbatim>\<open>/^[^\s@]+@[^\s@]+\.[^\s@]+$/\<close>: a non-empty local part without white
  space or \<open>@\<close>, an \<open>@\<close>, and a rest without white space or \<open>@\<close> that has a dot
  with at least one character on each side.
\<close>

definition email_char :: "char \<Rightarrow> bool" where
  "email_char c = (\<not> is_ws c \<and> c \<noteq> CHR ''@'')"

definition valid_email_format :: "string \<Rightarrow> bool" where
  "valid_email_format s =
     (let local_part = takeWhile (\<lambda>c. c \<noteq> CHR ''@'') s
      in local_part \<noteq> [] \<and> list_all email_char local_part
         \<and> (case drop (length local_part) s of
               [] \<Rightarrow> False
             | at_sign # domain \<Rightarrow>
                 list_all email_char domain
                 \<and> list_ex (\<lambda>i. domain ! i = CHR ''.'') [1 ..< length domain - 1]))"

text \<open>
  \<open>scheduled_time <= NOW()\<close>: the two times are compared through their ISO texts, which
  order as the times do; NULL is never before now.
\<close>

definition time_passed :: "string \<Rightarrow> jv \<Rightarrow> bool" where
  "time_passed now t = (case t of JDate isotext txt \<Rightarrow> isotext \<le> now | _ \<Rightarrow> False)"

definition is_pending :: "string \<Rightarrow> obj \<Rightarrow> bool" where
  "is_pending now a =
     (sql_eq (fld a ''sent'') (JBool False)
      \<and> (sql_eq (fld a ''timing_type'') (JStr ''instant'')
         \<or> (sql_eq (fld a ''timing_type'') (JStr ''scheduled'')
            \<and> time_passed now (fld a ''scheduled_time''))))"

text \<open>
  \<open>SELECT * FROM announcements WHERE sent = FALSE AND (timing_type = 'instant' OR
  (timing_type = 'scheduled' AND scheduled_time <= NOW())) ORDER BY created_at DESC\<close>.
\<close>

definition pending_announcements :: "string \<Rightarrow> db \<Rightarrow> obj list" where
  "pending_announcements now d = order_created_desc (filter (is_pending now) (announcements d))"

text \<open>GET /pending: registered with no middleware.\<close>

definition get_pending :: "string \<Rightarrow> db \<Rightarrow> response" where
  "get_pending now d = respond 200 (JArr (map JObj (pending_announcements now d)))"

text \<open>
  \<open>JSON.parse(announcement.recipient_value)\<close>, \<open>JSON.parse\<close> being an input of the model
  (\<open>None\<close> when it throws): a NULL column is parsed as the text \<open>null\<close>.
\<close>

definition parse_recipient :: "(string \<Rightarrow> jv option) \<Rightarrow> jv \<Rightarrow> jv option" where
  "parse_recipient json_parse v =
     (case v of JStr s \<Rightarrow> json_parse s | Null \<Rightarrow> Some Null | _ \<Rightarrow> json_parse (to_str v))"

text \<open>The body of the loop of GET /user/:email that computes \<open>shouldReceive\<close>.\<close>

definition shouldReceive :: "(string \<Rightarrow> jv option) \<Rightarrow> bool \<Rightarrow> jv \<Rightarrow> string \<Rightarrow> obj \<Rightarrow> bool" where
  "shouldReceive json_parse isGroupLeader userVehicleId email announcement =
     (let recipient_type = fld announcement ''recipient_type'';
          recipient_value = fld announcement ''recipient_value''
      in if recipient_type = JStr ''all-travelers''
         then (\<not> truthy recipient_value \<or> recipient_value = JStr ''ALL_TRAVELERS''
               \<or> recipient_value = JStr ''null'' \<or> recipient_value = JStr [])
         else if recipient_type = JStr ''specific-traveler''
         then (if recipient_value = JStr ''ALL_GROUP_LEADERS'' then isGroupLeader
               else (case parse_recipient json_parse recipient_value of
                       None \<Rightarrow> recipient_value = JStr email
                     | Some recipientData \<Rightarrow>
                         if truthy recipientData
                            \<and> get_prop recipientData ''type'' = JStr ''ALL_GROUP_LEADERS''
                         then (case get_prop recipientData ''recipients'' of
                                 JArr recipients \<Rightarrow> isGroupLeader \<and> JStr email \<in> set recipients
                               | _ \<Rightarrow> isGroupLeader)
                         else recipient_value = JStr email))
         else if recipient_type = JStr ''specific-vehicle''
         then (if truthy userVehicleId \<and> truthy recipient_value
               then (case (parseInt recipient_value, parseInt userVehicleId) of
                       (Some announcementVehicleId, Some userVehicleIdNum) \<Rightarrow>
                         announcementVehicleId = userVehicleIdNum
                     | _ \<Rightarrow> False)
               else False)
         else False)"

definition user_vehicle_id :: "db \<Rightarrow> string \<Rightarrow> jv" where
  "user_vehicle_id d email =
     (case filter (\<lambda>t. sql_eq (fld t ''email'') (JStr email)) (travelers d) of
        [] \<Rightarrow> Null
      | traveler # _ \<Rightarrow> fld traveler ''vehicle_id'')"

definition is_group_leader :: "db \<Rightarrow> string \<Rightarrow> bool" where
  "is_group_leader d email =
     (filter (\<lambda>v. sql_eq (fld v ''group_leader_email'') (JStr email)) (vehicles d) \<noteq> [])"

text \<open>GET /user/:email: registered with no middleware.\<close>

definition user_announcements :: "(string \<Rightarrow> jv option) \<Rightarrow> string \<Rightarrow> string \<Rightarrow> db \<Rightarrow> response" where
  "user_announcements json_parse now email d =
     (if \<not> valid_email_format email then respond 400 (error_body ''Invalid email format'')
      else respond 200 (JArr (map JObj
             (filter (shouldReceive json_parse (is_group_leader d email) (user_vehicle_id d email) email)
                (pending_announcements now d)))))"

section \<open>Routes and their middleware\<close>

text \<open>
  Express runs the functions registered for a route in order; each either answers the
  request or calls the next.  \<open>serve\<close> runs a list of middleware in front of a handler.
  The handler is any function of \<open>req.user\<close>; its outcome records the SQL statements it
  has built or run, and the response.
\<close>

datatype middleware = authenticateToken | requireAdmin

record outcome =
  statements :: "string list"
  reply :: response

definition refuse :: "nat \<Rightarrow> string \<Rightarrow> outcome" where
  "refuse n msg = \<lparr>statements = [], reply = respond n (error_body msg)\<rparr>"

text \<open>
  Modelled from the spec: the file \<open>middleware/auth.js\<close> that exports
  \<open>authenticateToken\<close> and \<open>requireAdmin\<close> is not among the source files at hand.  The
  spec describes the authentication as a standard JWT bearer-token check with a boolean
  admin flag: \<open>authenticateToken\<close> answers with an error when the request carries no
  bearer token or \<open>jwt.verify\<close> rejects it, and otherwise sets \<open>req.user\<close> to the payload
  and calls the next function; \<open>requireAdmin\<close> answers with an error unless \<open>req.user\<close>
  has the admin flag.  The spec fixes neither the status codes nor the texts; 401 and 403
  are the usual ones.  \<open>verify\<close> is \<open>jwt.verify\<close> with the server's secret, \<open>None\<close>
  when it throws; \<open>tok\<close> is the bearer token of the request, if any.
\<close>

fun serve ::
  "(string \<Rightarrow> user option) \<Rightarrow> middleware list \<Rightarrow> (user option \<Rightarrow> outcome) \<Rightarrow> string option
     \<Rightarrow> user option \<Rightarrow> outcome" where
  "serve verify [] handler tok req_user = handler req_user"
| "serve verify (authenticateToken # rest) handler tok req_user =
     (case tok of
        None \<Rightarrow> refuse 401 ''Access token required''
      | Some t \<Rightarrow>
          (case verify t of
             None \<Rightarrow> refuse 403 ''Invalid or expired token''
           | Some u \<Rightarrow> serve verify rest handler tok (Some u)))"
| "serve verify (requireAdmin # rest) handler tok req_user =
     (case req_user of
        None \<Rightarrow> refuse 401 ''Authentication required''
      | Some u \<Rightarrow>
          if isAdmin u then serve verify rest handler tok req_user
          else refuse 403 ''Admin access required'')"

text \<open>
  A registration \<open>router.verb(path, guards..., handler)\<close>, and the registrations of the
  routers as the source files make them, in the order of the files.
\<close>

record route =
  router :: string
  verb :: string
  path :: string
  guards :: "middleware list"

definition reg :: "string \<Rightarrow> string \<Rightarrow> string \<Rightarrow> middleware list \<Rightarrow> route" where
  "reg r v p g = \<lparr>router = r, verb = v, path = p, guards = g\<rparr>"

definition travelers_routes :: "route list" where
  "travelers_routes =
     [reg ''travelers'' ''GET'' ''/public'' [authenticateToken],
      reg ''travelers'' ''GET'' ''/'' [authenticateToken, requireAdmin],
      reg ''travelers'' ''GET'' ''/:id'' [authenticateToken],
      reg ''travelers'' ''GET'' ''/email/:email'' [authenticateToken],
      reg ''travelers'' ''POST'' ''/'' [authenticateToken, requireAdmin],
      reg ''travelers'' ''PUT'' ''/:id'' [authenticateToken],
      reg ''travelers'' ''DELETE'' ''/:id'' [authenticateToken, requireAdmin],
      reg ''travelers'' ''POST'' ''/login'' []]"

definition vehicles_routes :: "route list" where
  "vehicles_routes =
     [reg ''vehicles'' ''GET'' ''/'' [authenticateToken],
      reg ''vehicles'' ''GET'' ''/allotments'' [authenticateToken],
      reg ''vehicles'' ''POST'' ''/allotments'' [authenticateToken, requireAdmin],
      reg ''vehicles'' ''POST'' ''/allotments/bulk'' [authenticateToken, requireAdmin],
      reg ''vehicles'' ''DELETE'' ''/allotments'' [authenticateToken, requireAdmin],
      reg ''vehicles'' ''GET'' ''/:id'' [authenticateToken],
      reg ''vehicles'' ''POST'' ''/'' [authenticateToken, requireAdmin],
      reg ''vehicles'' ''PUT'' ''/:id'' [authenticateToken, requireAdmin],
      reg ''vehicles'' ''DELETE'' ''/:id'' [authenticateToken, requireAdmin],
      reg ''vehicles'' ''POST'' ''/:id/location'' [authenticateToken]]"

definition itinerary_routes :: "route list" where
  "itinerary_routes =
     [reg ''itinerary'' ''GET'' ''/'' [authenticateToken],
      reg ''itinerary'' ''GET'' ''/:id'' [authenticateToken],
      reg ''itinerary'' ''POST'' ''/'' [authenticateToken, requireAdmin],
      reg ''itinerary'' ''PUT'' ''/:id'' [authenticateToken, requireAdmin],
      reg ''itinerary'' ''DELETE'' ''/:id'' [authenticateToken, requireAdmin]]"

definition posts_routes :: "route list" where
  "posts_routes =
     [reg ''posts'' ''GET'' ''/'' [authenticateToken],
      reg ''posts'' ''GET'' ''/:id'' [authenticateToken],
      reg ''posts'' ''POST'' ''/'' [authenticateToken],
      reg ''posts'' ''PUT'' ''/:id'' [authenticateToken],
      reg ''posts'' ''DELETE'' ''/:id'' [authenticateToken],
      reg ''posts'' ''PATCH'' ''/:id/approve'' [authenticateToken, requireAdmin]]"

definition check_ins_routes :: "route list" where
  "check_ins_routes =
     [reg ''check-ins'' ''GET'' ''/'' [authenticateToken, requireAdmin],
      reg ''check-ins'' ''GET'' ''/my-status'' [authenticateToken],
      reg ''check-ins'' ''GET'' ''/vehicle/:vehicleId'' [authenticateToken, requireAdmin],
      reg ''check-ins'' ''POST'' ''/'' [authenticateToken],
      reg ''check-ins'' ''POST'' ''/:id/checkout'' [authenticateToken],
      reg ''check-ins'' ''DELETE'' ''/vehicle/:vehicleId'' [authenticateToken, requireAdmin]]"

definition settings_routes :: "route list" where
  "settings_routes =
     [reg ''settings'' ''GET'' ''/public'' [],
      reg ''settings'' ''GET'' ''/public/:key'' [],
      reg ''settings'' ''GET'' ''/'' [authenticateToken, requireAdmin],
      reg ''settings'' ''GET'' ''/:key'' [authenticateToken, requireAdmin],
      reg ''settings'' ''PUT'' ''/:key'' [authenticateToken, requireAdmin],
      reg ''settings'' ''PUT'' ''/'' [authenticateToken, requireAdmin]]"

definition announcements_routes :: "route list" where
  "announcements_routes =
     [reg ''announcements'' ''GET'' ''/'' [authenticateToken, requireAdmin],
      reg ''announcements'' ''GET'' ''/pending'' [],
      reg ''announcements'' ''GET'' ''/user/:email'' [],
      reg ''announcements'' ''POST'' ''/'' [authenticateToken, requireAdmin],
      reg ''announcements'' ''PUT'' ''/:id/sent'' [authenticateToken, requireAdmin],
      reg ''announcements'' ''DELETE'' ''/:id'' [authenticateToken, requireAdmin]]"

definition sections_routes :: "route list" where
  "sections_routes =
     [reg ''sections'' ''GET'' ''/'' [authenticateToken],
      reg ''sections'' ''GET'' ''/:id'' [authenticateToken],
      reg ''sections'' ''POST'' ''/'' [authenticateToken, requireAdmin],
      reg ''sections'' ''PUT'' ''/:id'' [authenticateToken, requireAdmin],
      reg ''sections'' ''DELETE'' ''/:id'' [authenticateToken, requireAdmin]]"

definition journals_routes :: "route list" where
  "journals_routes =
     [reg ''journals'' ''GET'' ''/'' [authenticateToken],
      reg ''journals'' ''GET'' ''/:id'' [authenticateToken],
      reg ''journals'' ''POST'' ''/'' [authenticateToken],
      reg ''journals'' ''PUT'' ''/:id'' [authenticateToken],
      reg ''journals'' ''DELETE'' ''/:id'' [authenticateToken]]"

text \<open>
  The routers of the current backend.  The hotels, room-pairs and admin routers are not
  among the source files, and an older copy of the vehicles router, which imports no
  middleware at all, is left out.
\<close>

definition all_routes :: "route list" where
  "all_routes =
     travelers_routes @ vehicles_routes @ itinerary_routes @ posts_routes @ check_ins_routes
     @ settings_routes @ announcements_routes @ sections_routes @ journals_routes"

definition serve_route ::
  "(string \<Rightarrow> user option) \<Rightarrow> route \<Rightarrow> (user option \<Rightarrow> outcome) \<Rightarrow> string option \<Rightarrow> outcome" where
  "serve_route verify r handler tok = serve verify (guards r) handler tok None"

text \<open>A request carries a valid token when it has a bearer token that \<open>jwt.verify\<close> accepts.\<close>

definition valid_token :: "(string \<Rightarrow> user option) \<Rightarrow> string option \<Rightarrow> bool" where
  "valid_token verify tok = (case tok of None \<Rightarrow> False | Some t \<Rightarrow> verify t \<noteq> None)"

text \<open>
  The handler of GET /pending of the announcements router with the one statement it
  runs; it does not read \<open>req.user\<close>.
\<close>

definition pending_sql :: string where
  "pending_sql =
     ''SELECT * FROM announcements WHERE sent = FALSE AND (timing_type = '' @ [CHR 0x27]
     @ ''instant'' @ [CHR 0x27] @ '' OR (timing_type = '' @ [CHR 0x27] @ ''scheduled'' @ [CHR 0x27]
     @ '' AND scheduled_time <= NOW())) ORDER BY created_at DESC''"

definition pending_handler :: "string \<Rightarrow> db \<Rightarrow> user option \<Rightarrow> outcome" where
  "pending_handler now d req_user = \<lparr>statements = [pending_sql], reply = get_pending now d\<rparr>"
subsection \<open>What a response exposes\<close>

text \<open>
  \<open>mentions k v\<close>: somewhere in the JSON value \<open>v\<close>, at any depth, an object has a
  property named \<open>k\<close>.  The columns of the schema hold scalars (numbers, texts, dates),
  never objects or arrays: \<open>scalar_rows\<close>.
\<close>

fun mentions :: "string \<Rightarrow> jv \<Rightarrow> bool" where
  "mentions k (JObj kvs) = list_ex (\<lambda>kv. fst kv = k \<or> mentions k (snd kv)) kvs"
| "mentions k (JArr xs) = list_ex (mentions k) xs"
| "mentions k v = False"

fun scalar :: "jv \<Rightarrow> bool" where
  "scalar (JObj kvs) = False"
| "scalar (JArr xs) = False"
| "scalar v = True"

definition scalar_row :: "obj \<Rightarrow> bool" where
  "scalar_row r = list_all (\<lambda>kv. scalar (snd kv)) r"

definition scalar_rows :: "db \<Rightarrow> bool" where
  "scalar_rows d = (list_all scalar_row (travelers d) \<and> list_all scalar_row (vehicles d))"

subsection \<open>Check-ins\<close>



subsection \<open>Vehicle allotments\<close>


subsection \<open>Announcements\<close>

text \<open>
  The targeting of an announcement in the words of the specification.  An announcement is
  a group-leader announcement when it is stored as \<open>specific-traveler\<close> with the marker
  \<open>ALL_GROUP_LEADERS\<close>, as a text or as the \<open>type\<close> of a JSON object; such a JSON
  object may carry a list of recipients.  The traveler with an email rides in the vehicle
  whose id the announcement's value reads as.
\<close>

definition is_group_leader_announcement :: "(string \<Rightarrow> jv option) \<Rightarrow> obj \<Rightarrow> bool" where
  "is_group_leader_announcement json_parse a =
     (fld a ''recipient_type'' = JStr ''specific-traveler''
      \<and> (fld a ''recipient_value'' = JStr ''ALL_GROUP_LEADERS''
         \<or> (case parse_recipient json_parse (fld a ''recipient_value'') of
              None \<Rightarrow> False
            | Some data \<Rightarrow> truthy data \<and> get_prop data ''type'' = JStr ''ALL_GROUP_LEADERS'')))"

definition recipients_list :: "(string \<Rightarrow> jv option) \<Rightarrow> obj \<Rightarrow> jv list option" where
  "recipients_list json_parse a =
     (if fld a ''recipient_value'' = JStr ''ALL_GROUP_LEADERS'' then None
      else (case parse_recipient json_parse (fld a ''recipient_value'') of
              None \<Rightarrow> None
            | Some data \<Rightarrow>
                (case get_prop data ''recipients'' of JArr xs \<Rightarrow> Some xs | _ \<Rightarrow> None)))"

definition rides_in :: "db \<Rightarrow> string \<Rightarrow> jv \<Rightarrow> bool" where
  "rides_in d email vehicle =
     (truthy (user_vehicle_id d email) \<and> truthy vehicle
      \<and> (case parseInt vehicle of
           None \<Rightarrow> False
         | Some v \<Rightarrow> parseInt (user_vehicle_id d email) = Some v))"

text \<open>The targeting as the claim states it.\<close>

definition targets_as_stated :: "(string \<Rightarrow> jv option) \<Rightarrow> db \<Rightarrow> string \<Rightarrow> obj \<Rightarrow> bool" where
  "targets_as_stated json_parse d email a =
     (fld a ''recipient_type'' = JStr ''all-travelers''
      \<or> (fld a ''recipient_type'' = JStr ''specific-traveler''
          \<and> fld a ''recipient_value'' = JStr email)
      \<or> (fld a ''recipient_type'' = JStr ''specific-vehicle''
          \<and> rides_in d email (fld a ''recipient_value''))
      \<or> (is_group_leader_announcement json_parse a \<and> is_group_leader d email))"

text \<open>
  The targeting as the handler decides it: an all-travelers announcement counts with an
  empty value or one of its markers, a specific-traveler announcement that is no
  group-leader announcement counts for its email, and a group-leader announcement with a
  list of recipients counts for the group leaders on the list.
\<close>

definition targets :: "(string \<Rightarrow> jv option) \<Rightarrow> db \<Rightarrow> string \<Rightarrow> obj \<Rightarrow> bool" where
  "targets json_parse d email a =
     ((fld a ''recipient_type'' = JStr ''all-travelers''
       \<and> (\<not> truthy (fld a ''recipient_value'')
          \<or> fld a ''recipient_value'' \<in> set [JStr ''ALL_TRAVELERS'', JStr ''null'']))
      \<or> (fld a ''recipient_type'' = JStr ''specific-traveler''
          \<and> \<not> is_group_leader_announcement json_parse a
          \<and> fld a ''recipient_value'' = JStr email)
      \<or> (fld a ''recipient_type'' = JStr ''specific-vehicle''
          \<and> rides_in d email (fld a ''recipient_value''))
      \<or> (is_group_leader_announcement json_parse a \<and> is_group_leader d email
          \<and> (case recipients_list json_parse a of
                None \<Rightarrow> True
              | Some xs \<Rightarrow> JStr email \<in> set xs)))"

section \<open>Example data\<close>

text \<open>
  A small database and stand-ins for the library functions, used to run the handlers on
  concrete requests.  \<open>ex_compare\<close> stands for \<open>bcrypt.compare\<close>: it throws unless both
  arguments are strings, and the stored hash of a password \<open>p\<close> is the text \<open>hash:p\<close>.
\<close>

definition ex_traveler :: obj where
  "ex_traveler =
     [(''id'', JNum 1), (''tirth_id'', JStr ''T-001''), (''first_name'', JStr ''Asha''),
      (''middle_name'', JStr []), (''last_name'', JStr ''Patel''),
      (''email'', JStr ''asha@example.com''), (''password_hash'', JStr ''hash:om''),
      (''birth_date'', JDate ''1990-05-01T00:00:00.000Z'' ''Tue May 01 1990''),
      (''age'', JNum 35), (''vehicle_id'', JNum 2), (''image_url'', Null)]"

definition ex_traveler2 :: obj where
  "ex_traveler2 =
     [(''id'', JNum 2), (''tirth_id'', JStr ''T-002''), (''first_name'', JStr ''Ravi''),
      (''middle_name'', JStr ''K''), (''last_name'', JStr ''Shah''),
      (''email'', JStr ''ravi@example.com''), (''password_hash'', JStr ''hash:jay''),
      (''birth_date'', Null), (''age'', Null), (''vehicle_id'', Null), (''image_url'', Null)]"

definition ex_vehicle :: obj where
  "ex_vehicle =
     [(''id'', JNum 2), (''name'', JStr ''Bus A''), (''color'', JStr ''#FF9933''),
      (''group_leader_email'', JStr ''ravi@example.com'')]"

definition ex_sections :: "obj list" where
  "ex_sections =
     [[(''id'', JNum 1), (''name'', JStr ''Temples & Sacred Sites'')],
      [(''id'', JNum 3), (''name'', JStr ''Food & Prasad'')]]"

definition ex_post1 :: obj where
  "ex_post1 =
     [(''id'', JNum 1), (''author_email'', JStr ''asha@example.com''),
      (''author_name'', JStr ''Asha Patel''), (''author_image_url'', JStr []),
      (''place'', JStr ''Muktinath''), (''location'', JStr ''Nepal''), (''section_id'', JNum 1),
      (''description'', JStr ''Darshan''), (''lat'', Null), (''lng'', Null),
      (''approved'', JNum 1), (''is_private'', JNum 0),
      (''created_at'', JDate ''2025-12-15T08:00:00.000Z'' ''Mon Dec 15 2025'')]"

definition ex_post2 :: obj where
  "ex_post2 =
     [(''id'', JNum 2), (''author_email'', JStr ''ravi@example.com''),
      (''author_name'', JStr ''Ravi K Shah''), (''author_image_url'', JStr []),
      (''place'', JStr ''Pokhara''), (''location'', JStr ''Nepal''), (''section_id'', JNum 3),
      (''description'', JStr ''Lunch''), (''lat'', Null), (''lng'', Null),
      (''approved'', JNum 0), (''is_private'', JNum 0),
      (''created_at'', JDate ''2025-12-16T09:30:00.000Z'' ''Tue Dec 16 2025'')]"

definition ex_now :: jv where
  "ex_now = JDate ''2025-12-17T10:00:00.000Z'' ''Wed Dec 17 2025''"

definition ex_vehicle5 :: obj where
  "ex_vehicle5 =
     [(''id'', JNum 5), (''name'', JStr ''Jeep 5''), (''color'', JStr ''#138808''),
      (''group_leader_email'', Null)]"

definition ex_check_in :: obj where
  "ex_check_in =
     [(''id'', JNum 7), (''vehicle_id'', JNum 2), (''traveler_email'', JStr ''asha@example.com''),
      (''traveler_id'', JNum 1), (''active'', JNum 1),
      (''checked_in_at'', JDate ''2025-12-16T06:00:00.000Z'' ''Tue Dec 16 2025''),
      (''checked_out_at'', Null)]"

definition ex_allotment :: obj where
  "ex_allotment =
     [(''id'', JNum 3), (''date'', JStr ''2025-12-18''), (''traveler_id'', JNum 1),
      (''vehicle_id'', JNum 5)]"

text \<open>
  \<open>ex_parse_date\<close> stands for \<open>new Date\<close> on the texts used below: a text of the shape
  \<open>YYYY-MM-DD\<close> is that date, anything else is an invalid date.
\<close>

definition ex_parse_date :: "jv \<Rightarrow> string option" where
  "ex_parse_date v =
     (case v of
        JStr s \<Rightarrow>
          if length s = 10 \<and> list_all (\<lambda>c. is_digit_in 10 c \<or> c = CHR ''-'') s
          then Some s else None
      | _ \<Rightarrow> None)"

text \<open>
  Three announcements: one for all travelers, one for the occupants of vehicle 2, and one
  for all group leaders that lists a single recipient.  \<open>ex_parse_recipient\<close> stands
  for \<open>JSON.parse\<close> on the stored values: the one JSON text parses to its object, every
  other value used here is no JSON and throws.
\<close>

definition ex_leaders_text :: string where
  "ex_leaders_text =
     ''{'' @ [CHR 0x22] @ ''type'' @ [CHR 0x22] @ '':'' @ [CHR 0x22] @ ''ALL_GROUP_LEADERS''
       @ [CHR 0x22] @ '','' @ [CHR 0x22] @ ''recipients'' @ [CHR 0x22] @ '':['' @ [CHR 0x22]
       @ ''asha@example.com'' @ [CHR 0x22] @ '']}''"

definition ex_parse_recipient :: "string \<Rightarrow> jv option" where
  "ex_parse_recipient s =
     (if s = ex_leaders_text
      then Some (JObj [(''type'', JStr ''ALL_GROUP_LEADERS''),
                       (''recipients'', JArr [JStr ''asha@example.com''])])
      else None)"

definition ex_announcement_all :: obj where
  "ex_announcement_all =
     [(''id'', JNum 1), (''recipient_type'', JStr ''all-travelers''),
      (''recipient_value'', JStr ''ALL_TRAVELERS''), (''message'', JStr ''Jay Swaminarayan''),
      (''display_type'', JStr ''notification''), (''timing_type'', JStr ''instant''),
      (''scheduled_time'', Null), (''sent'', JNum 0), (''sent_at'', Null),
      (''created_at'', JDate ''2025-12-16T05:00:00.000Z'' ''Tue Dec 16 2025'')]"

definition ex_announcement_vehicle :: obj where
  "ex_announcement_vehicle =
     [(''id'', JNum 2), (''recipient_type'', JStr ''specific-vehicle''),
      (''recipient_value'', JStr ''2''), (''message'', JStr ''Bus A leaves at 7''),
      (''display_type'', JStr ''banner''), (''timing_type'', JStr ''scheduled''),
      (''scheduled_time'', JDate ''2025-12-17T06:00:00.000Z'' ''Wed Dec 17 2025''),
      (''sent'', JNum 0), (''sent_at'', Null),
      (''created_at'', JDate ''2025-12-16T06:00:00.000Z'' ''Tue Dec 16 2025'')]"

definition ex_announcement_leaders :: obj where
  "ex_announcement_leaders =
     [(''id'', JNum 3), (''recipient_type'', JStr ''specific-traveler''),
      (''recipient_value'', JStr ex_leaders_text), (''message'', JStr ''Leaders meet at 6''),
      (''display_type'', JStr ''modal''), (''timing_type'', JStr ''instant''),
      (''scheduled_time'', Null), (''sent'', JNum 0), (''sent_at'', Null),
      (''created_at'', JDate ''2025-12-16T07:00:00.000Z'' ''Tue Dec 16 2025'')]"

definition ex_announcement_sent :: obj where
  "ex_announcement_sent =
     [(''id'', JNum 4), (''recipient_type'', JStr ''all-travelers''),
      (''recipient_value'', JStr ''ALL_TRAVELERS''), (''message'', JStr ''Welcome''),
      (''display_type'', JStr ''notification''), (''timing_type'', JStr ''instant''),
      (''scheduled_time'', Null), (''sent'', JNum 1),
      (''sent_at'', JDate ''2025-12-15T05:00:00.000Z'' ''Mon Dec 15 2025''),
      (''created_at'', JDate ''2025-12-15T04:00:00.000Z'' ''Mon Dec 15 2025'')]"

definition ex_db :: db where
  "ex_db = \<lparr>travelers = [ex_traveler, ex_traveler2], vehicles = [ex_vehicle, ex_vehicle5], post_sections = ex_sections,
            posts = [ex_post1, ex_post2],
            check_ins = [ex_check_in], vehicle_allotments = [ex_allotment],
            announcements = [ex_announcement_all, ex_announcement_vehicle, ex_announcement_leaders,
                             ex_announcement_sent],
            auto_increment = (\<lambda>t. 10)\<rparr>"

fun ex_compare :: "jv \<Rightarrow> jv \<Rightarrow> exn + bool" where
  "ex_compare (JStr p) (JStr h) = Inr (h = ''hash:'' @ p)"
| "ex_compare p h = Inl (LibError ''data and hash must be strings'')"

definition ex_sign :: "obj \<Rightarrow> string \<Rightarrow> string \<Rightarrow> string" where
  "ex_sign payload key expiresIn =
     ''jwt:'' @ to_str (fld payload ''id'') @ '':'' @ to_str (fld payload ''email'') @ '':''
       @ to_str (fld payload ''isAdmin'') @ '':'' @ key @ '':'' @ expiresIn"

definition ex_user :: user where
  "ex_user = \<lparr>user_id = 1, user_email = ''asha@example.com'', isAdmin = False\<rparr>"

definition ex_admin :: user where
  "ex_admin = \<lparr>user_id = 900, user_email = ''admin@example.com'', isAdmin = True\<rparr>"

definition ex_post_body :: obj where
  "ex_post_body =
     [(''authorEmail'', JStr ''asha@example.com''), (''authorName'', JStr ''Asha Patel''),
      (''place'', JStr ''Janakpur''), (''section'', JStr ''food''),
      (''description'', JStr ''Prasad''), (''approved'', JBool True)]"









definition ex_now_text :: string where
  "ex_now_text = ''2025-12-17T10:00:00.000Z''"

text \<open>\<open>ex_verify\<close> stands for \<open>jwt.verify\<close>: two tokens are valid, every other text is not.\<close>

definition ex_verify :: "string \<Rightarrow> user option" where
  "ex_verify t = (if t = ''token-of-asha'' then Some ex_user
                  else if t = ''token-of-admin'' then Some ex_admin else None)"

definition ex_login_body :: obj where
  "ex_login_body = [(''email'', JStr ''asha@example.com''), (''password'', JStr ''om'')]"

text \<open>Which statements of GET /my-status succeed: all, all but site 4, all but site 0.\<close>

definition ex_all_ok :: "nat \<Rightarrow> bool" where
  "ex_all_ok i = True"

definition ex_fail_at_4 :: "nat \<Rightarrow> bool" where
  "ex_fail_at_4 i = (i \<noteq> 4)"

definition ex_fail_at_0 :: "nat \<Rightarrow> bool" where
  "ex_fail_at_0 i = (i \<noteq> 0)"








section \<open>Evaluation of the JavaScript primitives\<close>

lemma parseInt_prefix_example: "parseInt (JStr ''12abc'') = Some 12"
  by (simp add: parseInt_def parseInt_str_def parse_unsigned_def parse_digits_def
      is_digit_in_def digit_val_def digits_value_def is_ws_def)

lemma parseInt_nan_example: "parseInt (JStr ''abc'') = None"
  by (simp add: parseInt_def parseInt_str_def parse_unsigned_def parse_digits_def
      is_digit_in_def digit_val_def digits_value_def is_ws_def)



section \<open>Objects\<close>

lemma fld_obj_put_other: "k \<noteq> k' \<Longrightarrow> fld (obj_put ob k' v) k = fld ob k"
  by (induction ob k' v rule: obj_put.induct) (auto simp: fld_def)


section \<open>Statements\<close>

lemma sql_eq_true: "sql_eq v (JBool True) = (v = JNum 1)"
  by (cases v) auto

lemma sql_eq_false: "sql_eq v (JBool False) = (v = JNum 0)"
  by (cases v) auto

lemma set_order_created_desc: "set (order_created_desc ps) = set ps"
  by (simp add: order_created_desc_def)

section \<open>Travelers: the password hash never leaves the server\<close>

lemma scalar_not_mentions: "scalar v \<Longrightarrow> \<not> mentions k v"
  by (cases v) auto

lemma fld_scalar: "scalar_row r \<Longrightarrow> scalar (fld r k)"
  by (auto simp: fld_def scalar_row_def list_all_iff split: option.splits dest!: map_of_SomeD)

lemma js_or_scalar: "scalar a \<Longrightarrow> scalar b \<Longrightarrow> scalar (js_or a b)"
  by (simp add: js_or_def)

lemma mentions_scalar_obj: "scalar_row ob \<Longrightarrow> mentions k (JObj ob) = (k \<in> fst ` set ob)"
  by (auto simp: scalar_row_def list_all_iff list_ex_iff dest: scalar_not_mentions)

lemma obj_put_keys: "fst ` set (obj_put ob k v) = insert k (fst ` set ob)"
  by (induction ob k v rule: obj_put.induct) auto

lemma scalar_row_put: "scalar_row ob \<Longrightarrow> scalar v \<Longrightarrow> scalar_row (obj_put ob k v)"
  by (induction ob k v rule: obj_put.induct) (auto simp: scalar_row_def)

lemma scalar_row_without: "scalar_row ob \<Longrightarrow> scalar_row (obj_without k ob)"
  by (auto simp: scalar_row_def obj_without_def list_all_iff)

lemma strip_password_scalar: "scalar_row t \<Longrightarrow> scalar_row (strip_password t)"
  unfolding strip_password_def
  by (intro scalar_row_put scalar_row_without js_or_scalar fld_scalar) auto

lemma strip_password_keys: "''password_hash'' \<notin> fst ` set (strip_password t)"
  by (auto simp: strip_password_def obj_put_keys obj_without_def)

lemma strip_password_clean:
  "scalar_row t \<Longrightarrow> \<not> mentions ''password_hash'' (JObj (strip_password t))"
  using strip_password_keys[of t] by (simp only: mentions_scalar_obj[OF strip_password_scalar] not_False_eq_True)

lemma iso_date_part_scalar: "iso_date_part v = Inr w \<Longrightarrow> scalar w"
  by (auto simp: iso_date_part_def split: if_splits jsval.splits)

lemma formatTraveler_keys:
  "formatTraveler t = Inr x \<Longrightarrow> ''password_hash'' \<notin> fst ` set x"
  unfolding formatTraveler_def by (auto split: sum.splits)

lemma formatTraveler_scalar:
  assumes "scalar_row t" "formatTraveler t = Inr x"
  shows "scalar_row x"
proof -
  have s: "\<And>k. scalar (fld t k)" using assms(1) by (rule fld_scalar)
  from assms(2) show ?thesis
    unfolding formatTraveler_def scalar_row_def
    by (auto split: sum.splits simp: s js_or_def iso_date_part_scalar)
qed

lemma formatTraveler_clean:
  "scalar_row t \<Longrightarrow> formatTraveler t = Inr x \<Longrightarrow> \<not> mentions ''password_hash'' (JObj x)"
  using formatTraveler_keys[of t x] mentions_scalar_obj[OF formatTraveler_scalar, of t x]
  by blast

lemma formatTravelerData_clean:
  "list_all scalar_row ts \<Longrightarrow> formatTravelerData ts = Inr xs
     \<Longrightarrow> list_all (\<lambda>x. \<not> mentions ''password_hash'' (JObj x)) xs"
proof (induction ts arbitrary: xs)
  case Nil
  then show ?case by simp
next
  case (Cons t ts)
  from Cons.prems obtain y ys where
    y: "formatTraveler t = Inr y" and ys: "formatTravelerData ts = Inr ys" and xs: "xs = y # ys"
    by (auto split: sum.splits)
  from Cons.prems(1) have "scalar_row t" "list_all scalar_row ts" by simp_all
  then show ?case
    unfolding xs using formatTraveler_clean[OF _ y] Cons.IH[OF _ ys]
    by (simp del: mentions.simps)
qed

lemma mentions_array_of_objects:
  "mentions k (JArr (map JObj xs)) = (\<not> list_all (\<lambda>x. \<not> mentions k (JObj x)) xs)"
  by (induction xs) auto

lemma vehicle_of_scalar: "scalar_rows d \<Longrightarrow> vehicle_of d vid = Some v \<Longrightarrow> scalar_row v"
  by (auto simp: vehicle_of_def scalar_rows_def list_all_iff find_Some_iff)

lemma with_vehicle_scalar:
  assumes "scalar_rows d" "scalar_row t"
  shows "scalar_row (with_vehicle d t)"
proof (cases "vehicle_of d (fld t ''vehicle_id'')")
  case None
  with assms(2) show ?thesis by (simp add: with_vehicle_def scalar_row_def)
next
  case (Some v)
  then have "scalar_row v" using assms(1) by (simp add: vehicle_of_scalar)
  then have "\<And>k. scalar (null_if_undefined (fld v k))"
    by (simp add: null_if_undefined_def fld_scalar)
  with Some assms(2) show ?thesis by (simp add: with_vehicle_def scalar_row_def)
qed

lemma select_travelers_joined_scalar:
  "scalar_rows d \<Longrightarrow> list_all scalar_row (select_travelers_joined d)"
  by (auto simp: select_travelers_joined_def list_all_iff scalar_rows_def
      intro!: with_vehicle_scalar)

lemma not_mentions_error_body: "\<not> mentions ''password_hash'' (error_body m)"
  by (simp add: error_body_def)

lemma not_mentions_error_message_body: "\<not> mentions ''password_hash'' (error_message_body e m)"
  by (simp add: error_message_body_def)

lemma get_travelers_clean:
  assumes "scalar_rows d"
  shows "\<not> mentions ''password_hash'' (body (get_travelers d))"
proof (cases "formatTravelerData (select_travelers_joined d)")
  case (Inl e)
  then show ?thesis by (simp add: get_travelers_def respond_def error_body_def)
next
  case (Inr xs)
  have "list_all (\<lambda>x. \<not> mentions ''password_hash'' (JObj x)) xs"
    using formatTravelerData_clean[OF select_travelers_joined_scalar[OF assms] Inr] .
  then have "\<not> mentions ''password_hash'' (JArr (map JObj xs))"
    by (simp only: mentions_array_of_objects not_not)
  with Inr show ?thesis by (simp add: get_travelers_def respond_def del: mentions.simps)
qed

lemma traveler_row_scalar:
  "scalar_rows d \<Longrightarrow> filter P (travelers d) = t # ts \<Longrightarrow> scalar_row t"
proof -
  assume a: "scalar_rows d" "filter P (travelers d) = t # ts"
  from a(2) have "t \<in> set (filter P (travelers d))" by simp
  then have "t \<in> set (travelers d)" by simp
  with a(1) show ?thesis by (simp add: scalar_rows_def list_all_iff)
qed

lemma get_traveler_by_id_clean:
  "scalar_rows d \<Longrightarrow> \<not> mentions ''password_hash'' (body (get_traveler_by_id u p d))"
  unfolding get_traveler_by_id_def Let_def
  by (auto split: option.splits list.splits
      simp: respond_def not_mentions_error_body not_mentions_error_message_body
      dest!: traveler_row_scalar strip_password_clean simp del: mentions.simps)

lemma login_clean:
  "scalar_rows d \<Longrightarrow> \<not> mentions ''password_hash'' (body (login c s k b d))"
  unfolding login_def Let_def select_traveler_by_email_def
  by (auto split: option.splits list.splits sum.splits
      simp: respond_def error_body_def
      dest!: traveler_row_scalar strip_password_clean)


lemma joined_row_scalar:
  "scalar_rows d \<Longrightarrow> filter P (select_travelers_joined d) = t # ts \<Longrightarrow> scalar_row t"
proof -
  assume a: "scalar_rows d" "filter P (select_travelers_joined d) = t # ts"
  from a(2) have "t \<in> set (filter P (select_travelers_joined d))" by simp
  then have "t \<in> set (select_travelers_joined d)" by simp
  with select_travelers_joined_scalar[OF a(1)] show ?thesis by (simp add: list_all_iff)
qed

lemma get_traveler_by_email_clean:
  assumes "scalar_rows d"
  shows "\<not> mentions ''password_hash'' (body (get_traveler_by_email u e d))"
proof (cases "\<not> isAdmin u \<and> user_email u \<noteq> e")
  case True
  then show ?thesis
    by (simp add: get_traveler_by_email_def respond_def error_message_body_def)
next
  case False
  show ?thesis
  proof (cases "filter (\<lambda>t. sql_eq (fld t ''email'') (JStr e)) (select_travelers_joined d)")
    case Nil
    with False show ?thesis
      by (simp add: get_traveler_by_email_def respond_def error_body_def error_message_body_def)
  next
    case (Cons t ts)
    have "scalar_row t" using joined_row_scalar[OF assms Cons] .
    then have nm: "\<And>k j. \<not> mentions j (fld t k)"
      by (simp add: fld_scalar scalar_not_mentions)
    from False Cons show ?thesis
      by (simp add: get_traveler_by_email_def respond_def js_or_def nm error_message_body_def)
  qed
qed

text \<open>
  Claim C9.  No traveler-facing endpoint includes the \<open>password_hash\<close> field in
  its JSON response.  GET /public and GET / build every item from an explicit field list,
  GET /:id and POST /login remove \<open>password_hash\<close> from the row before they spread
  it into the response, and GET /email/:email lists its fields.  For every database whose
  rows hold scalar column values, every requester and every request, no object anywhere
  in the response body has a property named \<open>password_hash\<close>; this covers the
  error responses too.
\<close>

theorem password_hash_never_in_response:
  assumes "scalar_rows d"
  shows "\<not> mentions ''password_hash'' (body (get_travelers d))
       \<and> \<not> mentions ''password_hash'' (body (get_traveler_by_id u p d))
       \<and> \<not> mentions ''password_hash'' (body (get_traveler_by_email u e d))
       \<and> \<not> mentions ''password_hash'' (body (login c s k b d))"
  using assms
  by (simp only: get_travelers_clean get_traveler_by_id_clean login_clean
      get_traveler_by_email_clean not_False_eq_True simp_thms)

lemma ex_db_scalar: "scalar_rows ex_db"
  by (simp add: scalar_rows_def ex_db_def scalar_row_def ex_traveler_def ex_traveler2_def ex_vehicle_def
      ex_vehicle5_def)


text \<open>
  Witness for C9 on the example database: its traveler rows do carry a
  \<open>password_hash\<close> column, the profile request succeeds, and none of the four
  responses mentions the field.
\<close>

theorem password_hash_never_in_response_witness:
  "scalar_rows ex_db
   \<and> mentions ''password_hash'' (JArr (map JObj (travelers ex_db)))
   \<and> status (get_traveler_by_id ex_user ''1'' ex_db) = 200
   \<and> \<not> mentions ''password_hash'' (body (get_travelers ex_db))
   \<and> \<not> mentions ''password_hash'' (body (get_traveler_by_id ex_user ''1'' ex_db))
   \<and> \<not> mentions ''password_hash'' (body (get_traveler_by_email ex_user ''asha@example.com'' ex_db))
   \<and> \<not> mentions ''password_hash''
         (body (login ex_compare ex_sign (Some ''k'') ex_login_body ex_db))"
proof -
  have h: "scalar_rows ex_db" by (rule ex_db_scalar)
  have m: "mentions ''password_hash'' (JArr (map JObj (travelers ex_db)))"
    by (simp add: ex_db_def ex_traveler_def)
  have st: "status (get_traveler_by_id ex_user ''1'' ex_db) = 200"
    by (simp add: get_traveler_by_id_def parseInt_str_def parse_unsigned_def parse_digits_def
        is_digit_in_def digit_val_def digits_value_def is_ws_def ex_user_def ex_db_def
        ex_traveler_def ex_traveler2_def fld_def respond_def)
  show ?thesis
    using h m st password_hash_never_in_response [OF h, of ex_user "''1''" "''asha@example.com''"
        ex_compare ex_sign "Some ''k''" ex_login_body]
    by blast
qed

section \<open>Travelers: login\<close>




section \<open>Posts: approval on read\<close>

lemma limit_rows_subset: "limit_rows q rows = Inr out \<Longrightarrow> set out \<subseteq> set rows"
  by (auto simp: limit_rows_def split: if_splits option.splits dest: in_set_takeD in_set_dropD)

lemma select_posts_rows:
  assumes "select_posts u q d = Inr rows" "p \<in> set rows"
  shows "p \<in> set (posts d) \<and> posts_where u q p"
proof -
  from assms(1) have "set rows \<subseteq> set (order_created_desc (filter (posts_where u q) (posts d)))"
    unfolding select_posts_def by (rule limit_rows_subset)
  with assms(2) show ?thesis by (auto simp: order_created_desc_def)
qed

lemma posts_where_non_admin: "\<not> isAdmin u \<Longrightarrow> posts_where u q p \<Longrightarrow> fld p ''approved'' = JNum 1"
  by (simp add: posts_where_def sql_eq_true)

lemma format_post_approved:
  "format_post_list_item p = Inr x \<Longrightarrow> fld x ''approved'' = JBool (fld p ''approved'' = JNum 1)"
  by (auto simp: format_post_list_item_def fld_def split: sum.splits)

lemma format_posts_items:
  "format_posts rows = Inr formatted \<Longrightarrow> x \<in> set formatted
     \<Longrightarrow> \<exists>p \<in> set rows. format_post_list_item p = Inr x"
proof (induction rows arbitrary: formatted)
  case Nil
  then show ?case by simp
next
  case (Cons r rows)
  from Cons.prems(1) obtain y ys where
    y: "format_post_list_item r = Inr y" and ys: "format_posts rows = Inr ys"
    and f: "formatted = y # ys"
    by (auto split: sum.splits)
  show ?case
  proof (cases "x = y")
    case True
    with y show ?thesis by auto
  next
    case False
    with Cons.prems(2) f have "x \<in> set ys" by simp
    from Cons.IH[OF ys this] show ?thesis by auto
  qed
qed

lemma format_posts_length: "format_posts rows = Inr formatted \<Longrightarrow> length formatted = length rows"
  by (induction rows arbitrary: formatted) (auto split: sum.splits)

lemma get_posts_200:
  "status (get_posts u q d) = 200 \<Longrightarrow>
     \<exists>rows formatted. select_posts u q d = Inr rows \<and> format_posts rows = Inr formatted
        \<and> body (get_posts u q d) = JArr (map JObj formatted)"
  by (auto simp: get_posts_def respond_def split: sum.splits)

lemma posts_where_admin_ignores_approval:
  "isAdmin u \<Longrightarrow> fld q ''approved'' = Undefined
     \<Longrightarrow> posts_where u q (obj_put p ''approved'' v) = posts_where u q p"
  by (simp add: posts_where_def fld_obj_put_other)

lemma select_posts_admin_all:
  "isAdmin u \<Longrightarrow> fld q ''approved'' = Undefined \<Longrightarrow> \<not> truthy (fld q ''section'')
     \<Longrightarrow> \<not> truthy (fld q ''author'') \<Longrightarrow> \<not> truthy (fld q ''limit'')
     \<Longrightarrow> select_posts u q d = Inr (order_created_desc (posts d))"
  by (simp add: select_posts_def posts_where_def limit_rows_def)

text \<open>
  Claim C3.  Posts are subject to admin approval on read.  For a requester who is no
  admin, whenever GET / answers 200, every row it selected is a post of the database whose
  \<open>approved\<close> column is 1 (true), and every item of the response carries
  \<open>approved = true\<close>; GET /:id on a post whose \<open>approved\<close> column is falsy answers 403
  \<open>Post not available\<close>.  For an admin who sends no \<open>approved\<close> parameter the WHERE
  clause does not look at the approval column at all, and with no other filter the
  selection is every post of the database, each of them formatted into the response.
\<close>

theorem posts_approval_on_read:
  "(\<not> isAdmin u \<and> status (get_posts u q d) = 200 \<longrightarrow>
      (\<exists>rows formatted.
          select_posts u q d = Inr rows \<and> format_posts rows = Inr formatted
          \<and> body (get_posts u q d) = JArr (map JObj formatted)
          \<and> (\<forall>p \<in> set rows. p \<in> set (posts d) \<and> fld p ''approved'' = JNum 1)
          \<and> (\<forall>x \<in> set formatted. fld x ''approved'' = JBool True)))
   \<and> (\<not> isAdmin u \<and> select_post_by_id d (JStr i) = p # ps \<and> \<not> truthy (fld p ''approved'')
        \<longrightarrow> get_post u i d = respond 403 (error_body ''Post not available''))
   \<and> (isAdmin u \<and> fld q ''approved'' = Undefined \<longrightarrow>
        (\<forall>r v. posts_where u q (obj_put r ''approved'' v) = posts_where u q r)
        \<and> (\<not> truthy (fld q ''section'') \<and> \<not> truthy (fld q ''author'') \<and> \<not> truthy (fld q ''limit'')
             \<longrightarrow> (\<exists>rows. select_posts u q d = Inr rows \<and> set rows = set (posts d)
                   \<and> (status (get_posts u q d) = 200 \<longrightarrow>
                        (\<exists>formatted. format_posts rows = Inr formatted
                           \<and> length formatted = length (posts d)
                           \<and> body (get_posts u q d) = JArr (map JObj formatted))))))"
proof (intro conjI impI)
  assume a: "\<not> isAdmin u \<and> status (get_posts u q d) = 200"
  then obtain rows formatted where
    s: "select_posts u q d = Inr rows" and f: "format_posts rows = Inr formatted"
    and b: "body (get_posts u q d) = JArr (map JObj formatted)"
    using get_posts_200 by blast
  have r: "\<forall>p \<in> set rows. p \<in> set (posts d) \<and> fld p ''approved'' = JNum 1"
    using select_posts_rows[OF s] posts_where_non_admin a by blast
  have "\<forall>x \<in> set formatted. fld x ''approved'' = JBool True"
  proof
    fix x assume "x \<in> set formatted"
    from format_posts_items[OF f this] obtain p where
      p: "p \<in> set rows" "format_post_list_item p = Inr x" by blast
    with r format_post_approved[OF p(2)] show "fld x ''approved'' = JBool True" by simp
  qed
  with s f b r show "\<exists>rows formatted.
          select_posts u q d = Inr rows \<and> format_posts rows = Inr formatted
          \<and> body (get_posts u q d) = JArr (map JObj formatted)
          \<and> (\<forall>p \<in> set rows. p \<in> set (posts d) \<and> fld p ''approved'' = JNum 1)
          \<and> (\<forall>x \<in> set formatted. fld x ''approved'' = JBool True)"
    by blast
next
  assume "\<not> isAdmin u \<and> select_post_by_id d (JStr i) = p # ps \<and> \<not> truthy (fld p ''approved'')"
  then show "get_post u i d = respond 403 (error_body ''Post not available'')"
    by (simp add: get_post_def)
next
  assume "isAdmin u \<and> fld q ''approved'' = Undefined"
  then show "\<forall>r v. posts_where u q (obj_put r ''approved'' v) = posts_where u q r"
    by (simp add: posts_where_admin_ignores_approval)
next
  assume a: "isAdmin u \<and> fld q ''approved'' = Undefined"
    and b: "\<not> truthy (fld q ''section'') \<and> \<not> truthy (fld q ''author'') \<and> \<not> truthy (fld q ''limit'')"
  then have s: "select_posts u q d = Inr (order_created_desc (posts d))"
    by (simp add: select_posts_admin_all)
  have "status (get_posts u q d) = 200 \<longrightarrow>
          (\<exists>formatted. format_posts (order_created_desc (posts d)) = Inr formatted
              \<and> length formatted = length (posts d)
              \<and> body (get_posts u q d) = JArr (map JObj formatted))"
  proof
    assume "status (get_posts u q d) = 200"
    from get_posts_200[OF this] s obtain formatted where
      f: "format_posts (order_created_desc (posts d)) = Inr formatted"
      and b: "body (get_posts u q d) = JArr (map JObj formatted)" by auto
    from format_posts_length[OF f] have "length formatted = length (posts d)"
      by (simp add: order_created_desc_def)
    with f b show "\<exists>formatted. format_posts (order_created_desc (posts d)) = Inr formatted
              \<and> length formatted = length (posts d)
              \<and> body (get_posts u q d) = JArr (map JObj formatted)" by blast
  qed
  with s show "\<exists>rows. select_posts u q d = Inr rows \<and> set rows = set (posts d)
                   \<and> (status (get_posts u q d) = 200 \<longrightarrow>
                        (\<exists>formatted. format_posts rows = Inr formatted
                           \<and> length formatted = length (posts d)
                           \<and> body (get_posts u q d) = JArr (map JObj formatted)))"
    by (simp add: set_order_created_desc)
qed

text \<open>
  Witness for C3 on the example database, which holds one approved and one unapproved
  post: the traveler's list succeeds, the unapproved post is refused to the traveler, and
  the admin's unfiltered selection is the whole table.
\<close>

theorem posts_approval_on_read_witness:
  "\<not> isAdmin ex_user \<and> status (get_posts ex_user [] ex_db) = 200
   \<and> (\<exists>rows formatted.
          select_posts ex_user [] ex_db = Inr rows \<and> format_posts rows = Inr formatted
          \<and> body (get_posts ex_user [] ex_db) = JArr (map JObj formatted)
          \<and> (\<forall>p \<in> set rows. p \<in> set (posts ex_db) \<and> fld p ''approved'' = JNum 1)
          \<and> (\<forall>x \<in> set formatted. fld x ''approved'' = JBool True))
   \<and> select_post_by_id ex_db (JStr ''2'') = [ex_post2] \<and> \<not> truthy (fld ex_post2 ''approved'')
   \<and> get_post ex_user ''2'' ex_db = respond 403 (error_body ''Post not available'')
   \<and> isAdmin ex_admin \<and> fld ([] :: obj) ''approved'' = Undefined
   \<and> (\<exists>rows. select_posts ex_admin [] ex_db = Inr rows \<and> set rows = set (posts ex_db)
         \<and> (status (get_posts ex_admin [] ex_db) = 200 \<longrightarrow>
               (\<exists>formatted. format_posts rows = Inr formatted
                  \<and> length formatted = length (posts ex_db)
                  \<and> body (get_posts ex_admin [] ex_db) = JArr (map JObj formatted))))"
proof -
  have h1: "\<not> isAdmin ex_user \<and> status (get_posts ex_user [] ex_db) = 200"
    by code_simp
  have h2: "\<not> isAdmin ex_user \<and> select_post_by_id ex_db (JStr ''2'') = [ex_post2]
              \<and> \<not> truthy (fld ex_post2 ''approved'')"
    by code_simp
  have h3: "isAdmin ex_admin \<and> fld ([] :: obj) ''approved'' = Undefined" 
    by code_simp
  have h4: "\<not> truthy (fld ([] :: obj) ''section'') \<and> \<not> truthy (fld ([] :: obj) ''author'')
      \<and> \<not> truthy (fld ([] :: obj) ''limit'')"
    by (simp add: fld_def)
  note t1 = posts_approval_on_read [of ex_user "[]" ex_db "''2''" ex_post2 "[]"]
  note t2 = posts_approval_on_read [of ex_admin "[]" ex_db "''2''" ex_post2 "[]"]
  from t1 h1 have c1: "\<exists>rows formatted.
          select_posts ex_user [] ex_db = Inr rows \<and> format_posts rows = Inr formatted
          \<and> body (get_posts ex_user [] ex_db) = JArr (map JObj formatted)
          \<and> (\<forall>p \<in> set rows. p \<in> set (posts ex_db) \<and> fld p ''approved'' = JNum 1)
          \<and> (\<forall>x \<in> set formatted. fld x ''approved'' = JBool True)"
    by blast
  from t1 h2 have c2: "get_post ex_user ''2'' ex_db = respond 403 (error_body ''Post not available'')"
    by blast
  from t2 h3 h4 have c3: "\<exists>rows. select_posts ex_admin [] ex_db = Inr rows \<and> set rows = set (posts ex_db)
         \<and> (status (get_posts ex_admin [] ex_db) = 200 \<longrightarrow>
               (\<exists>formatted. format_posts rows = Inr formatted
                  \<and> length formatted = length (posts ex_db)
                  \<and> body (get_posts ex_admin [] ex_db) = JArr (map JObj formatted)))"
    by blast
  from h1 h2 h3 c1 c2 c3 show ?thesis by blast
qed

section \<open>Posts: who can set the approval flag\<close>

text \<open>
  PUT /:id assigns the \<open>approved\<close> column only for an admin, so an update by the author
  leaves every approval flag as it was; and a post created without an \<open>approved\<close> field
  starts unapproved.
\<close>

lemma set_columns_other:
  "k \<notin> fst ` set updates \<Longrightarrow> fld (set_columns updates row) k = fld row k"
  unfolding set_columns_def
  by (induction updates arbitrary: row) (auto simp: fld_obj_put_other)

lemma post_updates_non_admin: "\<not> isAdmin u \<Longrightarrow> ''approved'' \<notin> fst ` set (post_updates u b)"
  by (auto simp: post_updates_def split: if_splits)

lemma update_post_row_keeps:
  "k \<notin> fst ` set updates \<Longrightarrow>
     map (\<lambda>p. fld p k) (posts (update_post_row d i updates)) = map (\<lambda>p. fld p k) (posts d)"
  by (simp add: update_post_row_def set_columns_other)

lemma update_post_non_admin_keeps_approved:
  "\<not> isAdmin u \<Longrightarrow>
     map (\<lambda>p. fld p ''approved'') (posts (snd (update_post u i b d)))
       = map (\<lambda>p. fld p ''approved'') (posts d)"
  by (auto simp: update_post_def update_post_row_keeps post_updates_non_admin
      split: option.splits list.splits)

lemma create_post_without_flag_unapproved:
  "fld b ''approved'' = Undefined \<Longrightarrow> create_post now u b d = (r, d') \<Longrightarrow> status r = 201
     \<Longrightarrow> \<exists>row. posts d' = posts d @ [row] \<and> fld row ''approved'' = JNum 0"
  by (auto simp: create_post_def Let_def insert_post_def flag_of_def sql_bool_def respond_def fld_def
      split: if_splits sum.splits)

text \<open>
  Claim C4 says that every post created by a user who is no admin starts with
  \<open>approved = false\<close>.  POST / takes the flag from the request body without looking at
  the requester's role, unlike PUT /:id: the example traveler creates a post for herself
  with \<open>approved: true\<close>, the response is 201 with \<open>approved = true\<close>, and the new row
  (id 10) is stored with \<open>approved = 1\<close>.
\<close>

theorem create_post_non_admin_self_approved:
  "\<not> isAdmin ex_user
   \<and> fld ex_post_body ''approved'' = JBool True
   \<and> fst (create_post ex_now ex_user ex_post_body ex_db)
       = respond 201 (JObj [(''id'', JNum 10), (''message'', JStr ''Post created successfully''),
                            (''approved'', JBool True), (''isPrivate'', JBool False)])
   \<and> map (\<lambda>p. (fld p ''id'', fld p ''author_email'', fld p ''approved''))
         (posts (snd (create_post ex_now ex_user ex_post_body ex_db)))
       = [(JNum 1, JStr ''asha@example.com'', JNum 1),
          (JNum 2, JStr ''ravi@example.com'', JNum 0),
          (JNum 10, JStr ''asha@example.com'', JNum 1)]"
  by code_simp

section \<open>Check-ins: the status route never fails\<close>

lemma check_in_report_status: "check_in_report ok e v d = Inr r \<Longrightarrow> status r = 200"
  by (auto simp: check_in_report_def run_query_def respond_def split: if_splits)

lemma my_status_try_status: "my_status_try ok pd today u q d = Inr r \<Longrightarrow> status r = 200"
  by (auto simp: my_status_try_def respond_def split: sum.splits if_splits
      dest: check_in_report_status)

lemma my_status_status: "status (my_status ok pd today u q d) = 200"
  by (auto simp: my_status_def respond_def split: sum.splits dest: my_status_try_status)

lemma my_status_first_statement:
  "\<not> ok 0 \<Longrightarrow> my_status ok pd today u q d = respond 200 safe_status"
  by (simp add: my_status_def my_status_try_def run_query_def)

lemma my_status_allotment:
  assumes ok: "\<forall>i. ok i"
    and t: "filter (\<lambda>t. sql_eq (fld t ''email'') (JStr (user_email u))) (travelers d) = t # ts"
    and tid: "truthy (fld t ''id'')"
    and dt: "truthy_date (normalizeDate_checkins pd today (fld q ''date'')) = Some dt"
    and a: "select_day_allotment d (fld t ''id'') dt = a # as"
    and v: "truthy (fld a ''vehicle_id'')"
  shows "get_prop (body (my_status ok pd today u q d)) ''vehicleId'' = fld a ''vehicle_id''"
proof -
  have dv: "day_vehicle ok (normalizeDate_checkins pd today (fld q ''date'')) (t # ts) d
              = Inr (fld a ''vehicle_id'')"
    using ok tid dt a v by (simp add: day_vehicle_def run_query_def)
  have cv: "choose_vehicle (fld a ''vehicle_id'') (t # ts) = fld a ''vehicle_id''"
    using v by (simp add: choose_vehicle_def)
  have rep: "\<And>e x. get_prop (body (case check_in_report ok e x d of Inl e \<Rightarrow> respond 200 safe_status
                                      | Inr r \<Rightarrow> r)) ''vehicleId'' = x"
    using ok by (simp add: check_in_report_def run_query_def respond_def get_prop_def fld_def)
  show ?thesis
    using ok t dv v cv rep
    by (simp add: my_status_def my_status_try_def run_query_def)
qed

lemma day_vehicle_failure:
  "day_vehicle ok dt trows d = Inr v \<Longrightarrow> day_vehicle (\<lambda>i. True) dt trows d = Inr v"
  by (auto simp: day_vehicle_def run_query_def split: list.splits option.splits if_splits)

lemma check_in_report_failure:
  "check_in_report ok e v d = Inr r \<Longrightarrow> check_in_report (\<lambda>i. True) e v d = Inr r"
  by (auto simp: check_in_report_def run_query_def split: if_splits)

lemma my_status_try_failure:
  assumes a: "my_status_try ok pd today u q d = Inr r"
  shows "my_status_try (\<lambda>i. True) pd today u q d = Inr r"
proof -
  let ?tr = "filter (\<lambda>t. sql_eq (fld t ''email'') (JStr (user_email u))) (travelers d)"
  let ?dt = "normalizeDate_checkins pd today (fld q ''date'')"
  from a have ok0: "ok 0"
    by (cases "ok 0") (simp_all add: my_status_try_def run_query_def)
  with a obtain dv where dv: "day_vehicle ok ?dt ?tr d = Inr dv"
    by (cases "day_vehicle ok ?dt ?tr d") (simp_all add: my_status_try_def run_query_def)
  note dv' = day_vehicle_failure[OF dv]
  show ?thesis
  proof (cases "truthy (choose_vehicle dv ?tr)")
    case False
    with a ok0 dv dv' show ?thesis
      by (simp add: my_status_try_def run_query_def)
  next
    case True
    with a ok0 dv have "check_in_report ok (JStr (user_email u)) (choose_vehicle dv ?tr) d = Inr r"
      by (simp add: my_status_try_def run_query_def)
    from check_in_report_failure[OF this] ok0 dv' True show ?thesis
      by (simp add: my_status_try_def run_query_def)
  qed
qed

lemma my_status_failure_free_or_safe:
  "my_status ok pd today u q d = my_status (\<lambda>i. True) pd today u q d
     \<or> my_status ok pd today u q d = respond 200 safe_status"
proof (cases "my_status_try ok pd today u q d")
  case (Inl e)
  then show ?thesis by (simp add: my_status_def)
next
  case (Inr r)
  from my_status_try_failure[OF this] Inr show ?thesis by (simp add: my_status_def)
qed

text \<open>
  Claim C10.  GET /my-status never answers an authenticated caller with an error status:
  the status is 200 whatever statements fail; whenever the \<open>try\<close> block throws, the
  response is the safe default \<open>{vehicleId: null, active: false, checkedIn: [],
  isCheckedIn: false}\<close>, in particular when the first statement fails; and a run with
  failures answers either what the failure-free run answers or the safe default.  When all
  statements succeed and the traveler has a day-wise allotment for the requested date, with
  a vehicle id that is set, the reported \<open>vehicleId\<close> is the allotment's, whatever the
  base \<open>vehicle_id\<close> of the traveler row is.
\<close>

theorem my_status_never_fails:
  "status (my_status ok pd today u q d) = 200
   \<and> ((\<exists>e. my_status_try ok pd today u q d = Inl e)
        \<longrightarrow> my_status ok pd today u q d = respond 200 safe_status)
   \<and> (\<not> ok 0 \<longrightarrow> my_status ok pd today u q d = respond 200 safe_status)
   \<and> (my_status ok pd today u q d = my_status (\<lambda>i. True) pd today u q d
        \<or> my_status ok pd today u q d = respond 200 safe_status)
   \<and> ((\<forall>i. ok i)
        \<and> filter (\<lambda>t. sql_eq (fld t ''email'') (JStr (user_email u))) (travelers d) = t # ts
        \<and> truthy (fld t ''id'')
        \<and> truthy_date (normalizeDate_checkins pd today (fld q ''date'')) = Some dt
        \<and> select_day_allotment d (fld t ''id'') dt = a # as
        \<and> truthy (fld a ''vehicle_id'')
       \<longrightarrow> get_prop (body (my_status ok pd today u q d)) ''vehicleId'' = fld a ''vehicle_id'')"
proof (intro conjI impI)
  show "status (my_status ok pd today u q d) = 200" by (rule my_status_status)
next
  assume "\<exists>e. my_status_try ok pd today u q d = Inl e"
  then show "my_status ok pd today u q d = respond 200 safe_status"
    by (auto simp: my_status_def)
next
  assume "\<not> ok 0"
  then show "my_status ok pd today u q d = respond 200 safe_status"
    by (rule my_status_first_statement)
next
  show "my_status ok pd today u q d = my_status (\<lambda>i. True) pd today u q d
        \<or> my_status ok pd today u q d = respond 200 safe_status"
    by (rule my_status_failure_free_or_safe)
next
  assume "(\<forall>i. ok i)
        \<and> filter (\<lambda>t. sql_eq (fld t ''email'') (JStr (user_email u))) (travelers d) = t # ts
        \<and> truthy (fld t ''id'')
        \<and> truthy_date (normalizeDate_checkins pd today (fld q ''date'')) = Some dt
        \<and> select_day_allotment d (fld t ''id'') dt = a # as
        \<and> truthy (fld a ''vehicle_id'')"
  then show "get_prop (body (my_status ok pd today u q d)) ''vehicleId'' = fld a ''vehicle_id''"
    using my_status_allotment by blast
qed

text \<open>
  Witness for C10 on the example database: a failure at site 4 and a failure at site 0
  both give the safe default with status 200; with no failure, the traveler whose base
  vehicle is 2 and whose allotment for 2025-12-18 is vehicle 5 is reported in vehicle 5.
\<close>

theorem my_status_never_fails_witness:
  "status (my_status ex_fail_at_4 ex_parse_date ''2025-12-17'' ex_user [] ex_db) = 200
   \<and> my_status_try ex_fail_at_4 ex_parse_date ''2025-12-17'' ex_user [] ex_db
        = Inl (DbError ''statement failed'')
   \<and> my_status ex_fail_at_4 ex_parse_date ''2025-12-17'' ex_user [] ex_db = respond 200 safe_status
   \<and> \<not> ex_fail_at_0 0
   \<and> my_status ex_fail_at_0 ex_parse_date ''2025-12-17'' ex_user [] ex_db = respond 200 safe_status
   \<and> fld ex_traveler ''vehicle_id'' = JNum 2
   \<and> select_day_allotment ex_db (fld ex_traveler ''id'') ''2025-12-18'' = [ex_allotment]
   \<and> get_prop (body (my_status ex_all_ok ex_parse_date ''2025-12-17'' ex_user
                        [(''date'', JStr ''2025-12-18'')] ex_db)) ''vehicleId'' = JNum 5"
proof -
  have f4: "my_status_try ex_fail_at_4 ex_parse_date ''2025-12-17'' ex_user [] ex_db
              = Inl (DbError ''statement failed'')"
    by code_simp
  have f0: "\<not> ex_fail_at_0 0" by (simp add: ex_fail_at_0_def)
  have h: "(\<forall>i. ex_all_ok i)
        \<and> filter (\<lambda>t. sql_eq (fld t ''email'') (JStr (user_email ex_user))) (travelers ex_db)
            = ex_traveler # []
        \<and> truthy (fld ex_traveler ''id'')
        \<and> truthy_date (normalizeDate_checkins ex_parse_date ''2025-12-17''
              (fld [(''date'', JStr ''2025-12-18'')] ''date'')) = Some ''2025-12-18''
        \<and> select_day_allotment ex_db (fld ex_traveler ''id'') ''2025-12-18'' = ex_allotment # []
        \<and> truthy (fld ex_allotment ''vehicle_id'')"
    by (simp add: ex_all_ok_def) code_simp
  have v: "fld ex_allotment ''vehicle_id'' = JNum 5" "fld ex_traveler ''vehicle_id'' = JNum 2"
    by (simp_all add: ex_allotment_def ex_traveler_def fld_def)
  note t1 = my_status_never_fails [of ex_fail_at_4 ex_parse_date "''2025-12-17''" ex_user "[]" ex_db]
  note t2 = my_status_never_fails [of ex_fail_at_0 ex_parse_date "''2025-12-17''" ex_user "[]" ex_db]
  note t3 = my_status_never_fails [of ex_all_ok ex_parse_date "''2025-12-17''" ex_user
      "[(''date'', JStr ''2025-12-18'')]" ex_db ex_traveler "[]" "''2025-12-18''" ex_allotment "[]"]
  from t1 f4 have c1: "status (my_status ex_fail_at_4 ex_parse_date ''2025-12-17'' ex_user [] ex_db) = 200"
    and c2: "my_status ex_fail_at_4 ex_parse_date ''2025-12-17'' ex_user [] ex_db = respond 200 safe_status"
    by blast+
  from t2 f0 have c3: "my_status ex_fail_at_0 ex_parse_date ''2025-12-17'' ex_user [] ex_db
      = respond 200 safe_status" by blast
  from t3 h v have c4: "get_prop (body (my_status ex_all_ok ex_parse_date ''2025-12-17'' ex_user
                        [(''date'', JStr ''2025-12-18'')] ex_db)) ''vehicleId'' = JNum 5"
    by simp
  from c1 f4 c2 f0 c3 v h c4 show ?thesis by simp
qed

section \<open>Announcements: delivery follows the targeting\<close>

lemma shouldReceive_targets:
  "shouldReceive jp (is_group_leader d email) (user_vehicle_id d email) email a = targets jp d email a"
proof -
  let ?rt = "fld a ''recipient_type''" and ?rv = "fld a ''recipient_value''"
  consider (all) "?rt = JStr ''all-travelers''" | (trav) "?rt = JStr ''specific-traveler''"
    | (veh) "?rt = JStr ''specific-vehicle''"
    | (other) "?rt \<noteq> JStr ''all-travelers''" "?rt \<noteq> JStr ''specific-traveler''"
        "?rt \<noteq> JStr ''specific-vehicle''"
    by blast
  then show ?thesis
  proof cases
    case all
    then show ?thesis
      by (auto simp: shouldReceive_def Let_def targets_def is_group_leader_announcement_def)
  next
    case trav
    show ?thesis
    proof (cases "?rv = JStr ''ALL_GROUP_LEADERS''")
      case True
      with trav show ?thesis
        by (simp add: shouldReceive_def Let_def targets_def is_group_leader_announcement_def
            recipients_list_def)
    next
      case False
      show ?thesis
      proof (cases "parse_recipient jp ?rv")
        case None
        with trav False show ?thesis
          by (simp add: shouldReceive_def Let_def targets_def is_group_leader_announcement_def
              recipients_list_def)
      next
        case (Some data)
        with trav False show ?thesis
          by (cases "get_prop data ''recipients''")
             (auto simp: shouldReceive_def Let_def targets_def is_group_leader_announcement_def
              recipients_list_def)
      qed
    qed
  next
    case veh
    then show ?thesis
      by (auto simp: shouldReceive_def Let_def targets_def is_group_leader_announcement_def
          rides_in_def split: option.splits)
  next
    case other
    then show ?thesis
      by (simp add: shouldReceive_def Let_def targets_def is_group_leader_announcement_def)
  qed
qed

lemma shouldReceive_targets_fun:
  "shouldReceive jp (is_group_leader d email) (user_vehicle_id d email) email = targets jp d email"
  by (rule ext) (rule shouldReceive_targets)

lemma pending_set:
  "set (pending_announcements now d) = {a \<in> set (announcements d). is_pending now a}"
  by (auto simp: pending_announcements_def set_order_created_desc)

lemma pending_unsent: "is_pending now a \<Longrightarrow> fld a ''sent'' = JNum 0"
  by (simp add: is_pending_def sql_eq_false)

text \<open>
  Claim C5, as amended.  For every well-formed email, GET /user/:email answers 200 with
  exactly the announcements of the table that are pending (not sent, and instant or
  scheduled for a time that has passed) and target the email, newest first, where an
  announcement targets an email when it is for all travelers (its value empty, \<open>null\<close>
  or the marker \<open>ALL_TRAVELERS\<close>), or for that email as a specific traveler, or for the
  vehicle in which the traveler with that email rides, or when it is a group-leader
  announcement, the email is a vehicle's group leader and, if the announcement stores a
  list of recipients, the email is on that list.  No delivered announcement is marked
  sent.  An email that is not well-formed is answered 400 and receives nothing.
\<close>

theorem announcements_delivery:
  "(valid_email_format email \<longrightarrow>
      user_announcements jp now email d
        = respond 200 (JArr (map JObj (filter (targets jp d email) (pending_announcements now d))))
      \<and> (\<forall>a. a \<in> set (filter (targets jp d email) (pending_announcements now d))
              \<longleftrightarrow> a \<in> set (announcements d) \<and> is_pending now a \<and> targets jp d email a)
      \<and> (\<forall>a \<in> set (filter (targets jp d email) (pending_announcements now d)).
            fld a ''sent'' = JNum 0))
   \<and> (\<not> valid_email_format email \<longrightarrow>
        user_announcements jp now email d = respond 400 (error_body ''Invalid email format''))"
  by (auto simp: user_announcements_def shouldReceive_targets_fun pending_set pending_unsent)


text \<open>
  Claim C5 as stated says that a pending group-leader announcement is delivered to an
  email exactly when the email is a vehicle's group leader.  In the example database the
  second traveler leads vehicle 2, and the pending announcement 3 is a group-leader
  announcement that lists one other recipient: the claim's targeting holds for him, but
  the handler delivers only the announcement for all travelers.
\<close>

theorem group_leader_not_on_list_counterexample:
  "valid_email_format ''ravi@example.com''
   \<and> is_group_leader ex_db ''ravi@example.com''
   \<and> ex_announcement_leaders \<in> set (pending_announcements ex_now_text ex_db)
   \<and> is_group_leader_announcement ex_parse_recipient ex_announcement_leaders
   \<and> targets_as_stated ex_parse_recipient ex_db ''ravi@example.com'' ex_announcement_leaders
   \<and> user_announcements ex_parse_recipient ex_now_text ''ravi@example.com'' ex_db
        = respond 200 (JArr [JObj ex_announcement_all])"
  by code_simp

text \<open>
  Witness for the amended C5: the first traveler, who rides vehicle 2 and leads none,
  receives the vehicle's announcement and the one for all travelers, newest first, and not
  the sent one; the text \<open>asha\<close> is no email and is answered 400.
\<close>

theorem announcements_delivery_witness:
  "valid_email_format ''asha@example.com''
   \<and> user_announcements ex_parse_recipient ex_now_text ''asha@example.com'' ex_db
        = respond 200 (JArr [JObj ex_announcement_vehicle, JObj ex_announcement_all])
   \<and> \<not> valid_email_format ''asha''
   \<and> user_announcements ex_parse_recipient ex_now_text ''asha'' ex_db
        = respond 400 (error_body ''Invalid email format'')"
proof -
  have v: "valid_email_format ''asha@example.com''" by code_simp
  have f: "filter (targets ex_parse_recipient ex_db ''asha@example.com'')
             (pending_announcements ex_now_text ex_db)
           = [ex_announcement_vehicle, ex_announcement_all]"
    by code_simp
  have n: "\<not> valid_email_format ''asha''" by code_simp
  note t1 = announcements_delivery [of "''asha@example.com''" ex_parse_recipient ex_now_text ex_db]
  note t2 = announcements_delivery [of "''asha''" ex_parse_recipient ex_now_text ex_db]
  from t1 v f have c1: "user_announcements ex_parse_recipient ex_now_text ''asha@example.com'' ex_db
        = respond 200 (JArr [JObj ex_announcement_vehicle, JObj ex_announcement_all])"
    by simp
  from t2 n have c2: "user_announcements ex_parse_recipient ex_now_text ''asha'' ex_db
        = respond 400 (error_body ''Invalid email format'')"
    by blast
  from v c1 n c2 show ?thesis by simp
qed

section \<open>Check-ins: at most one active check-in\<close>








lemma select_active_append:
  "select_active_check_in (d\<lparr>check_ins := cs\<rparr>) v e
     = filter (\<lambda>c. sql_eq (fld c ''vehicle_id'') v \<and> sql_eq (fld c ''traveler_email'') e
                \<and> sql_eq (fld c ''active'') (JNum 1)) cs"
  by (simp add: select_active_check_in_def)

lemma select_active_cong:
  "check_ins d' = check_ins d \<Longrightarrow> select_active_check_in d' v e = select_active_check_in d v e"
  by (simp add: select_active_check_in_def)









section \<open>Vehicle allotments: one vehicle per traveler and day\<close>















section \<open>Settings: round trip\<close>






lemma first_of_rev:
  "rev (filter P xs) = r # rs \<Longrightarrow> \<exists>q qs. filter P xs = q # qs"
  by (cases "filter P xs") auto




section \<open>Routes: authentication before the handler\<close>

lemmas route_tables = all_routes_def travelers_routes_def vehicles_routes_def itinerary_routes_def
  posts_routes_def check_ins_routes_def settings_routes_def announcements_routes_def
  sections_routes_def journals_routes_def reg_def

lemma guards_shapes:
  "list_all (\<lambda>r. guards r = [] \<or> guards r = [authenticateToken]
                \<or> guards r = [authenticateToken, requireAdmin]) all_routes"
  by (simp add: route_tables)

lemma guards_cases:
  "r \<in> set all_routes \<Longrightarrow>
     guards r = [] \<or> guards r = [authenticateToken] \<or> guards r = [authenticateToken, requireAdmin]"
  using guards_shapes by (simp add: list_all_iff)

lemma serve_no_token:
  "\<not> valid_token verify tok \<Longrightarrow>
     statements (serve verify (authenticateToken # rest) h tok u) = []
     \<and> 400 \<le> status (reply (serve verify (authenticateToken # rest) h tok u))"
  by (auto simp: valid_token_def refuse_def respond_def split: option.splits)

lemma serve_not_admin:
  "tok = Some t \<Longrightarrow> verify t = Some u \<Longrightarrow> \<not> isAdmin u \<Longrightarrow>
     statements (serve verify [authenticateToken, requireAdmin] h tok None) = []
     \<and> 400 \<le> status (reply (serve verify [authenticateToken, requireAdmin] h tok None))"
  by (simp add: refuse_def respond_def)

lemma unguarded_routes:
  "filter (\<lambda>r. guards r = []) all_routes =
     [reg ''travelers'' ''POST'' ''/login'' [],
      reg ''settings'' ''GET'' ''/public'' [],
      reg ''settings'' ''GET'' ''/public/:key'' [],
      reg ''announcements'' ''GET'' ''/pending'' [],
      reg ''announcements'' ''GET'' ''/user/:email'' []]"
  by (simp add: route_tables)

text \<open>
  Claim C1, as amended.  In the routers travelers, vehicles, itinerary, posts, check-ins,
  settings, announcements, sections and journals, every route registered with middleware
  has \<open>authenticateToken\<close> first: a request that carries no valid token never reaches
  the handler, so no SQL statement is built or run, and receives an error response; on a
  route that also has \<open>requireAdmin\<close>, a request with a valid token of a user who is no
  admin is refused in the same way.  A request with a valid token (of an admin, where
  \<open>requireAdmin\<close> is registered) reaches the handler with \<open>req.user\<close> set; ownership
  checks are the handler's own.  Five routes are registered with no middleware and run
  their handler for any request: POST /login of travelers, GET /public and
  GET /public/:key of settings, GET /pending and GET /user/:email of announcements.
\<close>

theorem guarded_routes_refuse:
  "(r \<in> set all_routes \<and> guards r \<noteq> [] \<and> \<not> valid_token verify tok
      \<longrightarrow> statements (serve_route verify r h tok) = []
          \<and> 400 \<le> status (reply (serve_route verify r h tok)))
   \<and> (r \<in> set all_routes \<and> requireAdmin \<in> set (guards r)
        \<and> tok = Some t \<and> verify t = Some u \<and> \<not> isAdmin u
      \<longrightarrow> statements (serve_route verify r h tok) = []
          \<and> 400 \<le> status (reply (serve_route verify r h tok)))
   \<and> (r \<in> set all_routes \<and> guards r \<noteq> [] \<and> tok = Some t \<and> verify t = Some u
        \<and> (requireAdmin \<in> set (guards r) \<longrightarrow> isAdmin u)
      \<longrightarrow> serve_route verify r h tok = h (Some u))
   \<and> (guards r = [] \<longrightarrow> serve_route verify r h tok = h None)
   \<and> filter (\<lambda>r. guards r = []) all_routes =
        [reg ''travelers'' ''POST'' ''/login'' [],
         reg ''settings'' ''GET'' ''/public'' [],
         reg ''settings'' ''GET'' ''/public/:key'' [],
         reg ''announcements'' ''GET'' ''/pending'' [],
         reg ''announcements'' ''GET'' ''/user/:email'' []]"
proof (intro conjI impI)
  assume a: "r \<in> set all_routes \<and> guards r \<noteq> [] \<and> \<not> valid_token verify tok"
  then obtain rest where "guards r = authenticateToken # rest"
    using guards_cases[of r] by auto
  with a show "statements (serve_route verify r h tok) = []"
    and "400 \<le> status (reply (serve_route verify r h tok))"
    using serve_no_token[of verify tok rest h None] by (simp_all add: serve_route_def)
next
  assume a: "r \<in> set all_routes \<and> requireAdmin \<in> set (guards r)
        \<and> tok = Some t \<and> verify t = Some u \<and> \<not> isAdmin u"
  then have "guards r = [authenticateToken, requireAdmin]"
    using guards_cases[of r] by auto
  with a show "statements (serve_route verify r h tok) = []"
    and "400 \<le> status (reply (serve_route verify r h tok))"
    using serve_not_admin[of tok t verify u h] by (simp_all add: serve_route_def)
next
  assume a: "r \<in> set all_routes \<and> guards r \<noteq> [] \<and> tok = Some t \<and> verify t = Some u
        \<and> (requireAdmin \<in> set (guards r) \<longrightarrow> isAdmin u)"
  then show "serve_route verify r h tok = h (Some u)"
    using guards_cases[of r] by (auto simp: serve_route_def)
next
  assume "guards r = []"
  then show "serve_route verify r h tok = h None" by (simp add: serve_route_def)
next
  show "filter (\<lambda>r. guards r = []) all_routes =
        [reg ''travelers'' ''POST'' ''/login'' [],
         reg ''settings'' ''GET'' ''/public'' [],
         reg ''settings'' ''GET'' ''/public/:key'' [],
         reg ''announcements'' ''GET'' ''/pending'' [],
         reg ''announcements'' ''GET'' ''/user/:email'' []]"
    by (rule unguarded_routes)
qed

text \<open>
  Claim C1 as stated says that a request without a valid token never reaches SQL on any
  route.  GET /pending of the announcements router is registered with no middleware: a
  request with no token runs the handler's SELECT and is answered 200.
\<close>

theorem pending_route_public_counterexample:
  "reg ''announcements'' ''GET'' ''/pending'' [] \<in> set all_routes
   \<and> \<not> valid_token ex_verify None
   \<and> statements (serve_route ex_verify (reg ''announcements'' ''GET'' ''/pending'' [])
                   (pending_handler ex_now_text ex_db) None) = [pending_sql]
   \<and> status (reply (serve_route ex_verify (reg ''announcements'' ''GET'' ''/pending'' [])
                       (pending_handler ex_now_text ex_db) None)) = 200"
  by (simp add: route_tables serve_route_def valid_token_def pending_handler_def get_pending_def
      respond_def)

text \<open>
  Witness for the amended C1: a forged token on POST /posts is refused before the handler;
  a traveler's valid token on PUT /settings/:key is refused before the handler; the same
  token on POST /posts reaches the handler with the traveler as \<open>req.user\<close>; and
  GET /pending runs its handler with no token.
\<close>

theorem guarded_routes_refuse_witness:
  "reg ''posts'' ''POST'' ''/'' [authenticateToken] \<in> set all_routes
   \<and> \<not> valid_token ex_verify (Some ''forged'')
   \<and> serve_route ex_verify (reg ''posts'' ''POST'' ''/'' [authenticateToken])
        (pending_handler ex_now_text ex_db) (Some ''forged'')
       = refuse 403 ''Invalid or expired token''
   \<and> reg ''settings'' ''PUT'' ''/:key'' [authenticateToken, requireAdmin] \<in> set all_routes
   \<and> ex_verify ''token-of-asha'' = Some ex_user \<and> \<not> isAdmin ex_user
   \<and> statements (serve_route ex_verify (reg ''settings'' ''PUT'' ''/:key'' [authenticateToken, requireAdmin])
                   (pending_handler ex_now_text ex_db) (Some ''token-of-asha'')) = []
   \<and> serve_route ex_verify (reg ''posts'' ''POST'' ''/'' [authenticateToken])
        (pending_handler ex_now_text ex_db) (Some ''token-of-asha'')
       = pending_handler ex_now_text ex_db (Some ex_user)
   \<and> serve_route ex_verify (reg ''announcements'' ''GET'' ''/pending'' [])
        (pending_handler ex_now_text ex_db) None
       = pending_handler ex_now_text ex_db None"
proof -
  let ?h = "pending_handler ex_now_text ex_db"
  let ?post = "reg ''posts'' ''POST'' ''/'' [authenticateToken]"
  let ?put = "reg ''settings'' ''PUT'' ''/:key'' [authenticateToken, requireAdmin]"
  let ?pend = "reg ''announcements'' ''GET'' ''/pending'' []"
  have m1: "?post \<in> set all_routes" "?put \<in> set all_routes"
    by (simp_all add: route_tables)
  have g: "guards ?post \<noteq> []" "requireAdmin \<in> set (guards ?put)" "guards ?pend = []"
    "requireAdmin \<notin> set (guards ?post)"
    by (simp_all add: reg_def)
  have v: "\<not> valid_token ex_verify (Some ''forged'')"
    "ex_verify ''token-of-asha'' = Some ex_user" "\<not> isAdmin ex_user"
    by (simp_all add: valid_token_def ex_verify_def ex_user_def)
  note t1 = guarded_routes_refuse [of ?post ex_verify "Some ''forged''" ?h]
  note t2 = guarded_routes_refuse [of ?put ex_verify "Some ''token-of-asha''" ?h "''token-of-asha''" ex_user]
  note t3 = guarded_routes_refuse [of ?post ex_verify "Some ''token-of-asha''" ?h "''token-of-asha''" ex_user]
  note t4 = guarded_routes_refuse [of ?pend ex_verify None ?h]
  from t1 m1 g v have c1: "statements (serve_route ex_verify ?post ?h (Some ''forged'')) = []"
    by blast
  have c1': "serve_route ex_verify ?post ?h (Some ''forged'') = refuse 403 ''Invalid or expired token''"
    by (simp add: serve_route_def reg_def ex_verify_def)
  from t2 m1 g v have c2: "statements (serve_route ex_verify ?put ?h (Some ''token-of-asha'')) = []"
    by blast
  from t3 m1 g v have c3: "serve_route ex_verify ?post ?h (Some ''token-of-asha'') = ?h (Some ex_user)"
    by blast
  from t4 g have c4: "serve_route ex_verify ?pend ?h None = ?h None"
    by blast
  from m1 v c1 c1' c2 c3 c4 show ?thesis by simp
qed

end
